theory Spec2Isabelle
  imports Complex_Main "HOL-Library.Sublist" "HOL-Library.AList" "HOL-Library.Word"
begin

section \<open>Go strings\<close>

text \<open>
  Go strings are byte sequences, modelled as \<open>string\<close>. The functions of package
  \<open>strings\<close> that work on bytes are written out. \<open>strings.ToLower\<close>,
  \<open>strings.EqualFold\<close> and \<open>strings.TrimSpace\<close> follow the Unicode tables; they are
  parameters of the model, with the other library functions below. Their ASCII
  versions, which agree with them on ASCII strings, are defined here for concrete runs.
\<close>

definition HasPrefix :: "string \<Rightarrow> string \<Rightarrow> bool" where
  "HasPrefix s p = prefix p s"

definition HasSuffix :: "string \<Rightarrow> string \<Rightarrow> bool" where
  "HasSuffix s p = suffix p s"

definition Contains :: "string \<Rightarrow> string \<Rightarrow> bool" where
  "Contains s sub = sublist sub s"

definition TrimPrefix :: "string \<Rightarrow> string \<Rightarrow> string" where
  "TrimPrefix s p = (if HasPrefix s p then drop (length p) s else s)"

definition TrimSuffix :: "string \<Rightarrow> string \<Rightarrow> string" where
  "TrimSuffix s p = (if HasSuffix s p then take (length s - length p) s else s)"

definition asciiUpper :: string where
  "asciiUpper = ''ABCDEFGHIJKLMNOPQRSTUVWXYZ''"

definition asciiLower :: string where
  "asciiLower = ''abcdefghijklmnopqrstuvwxyz''"

definition lowerChar :: "char \<Rightarrow> char" where
  "lowerChar c = (case map_of (zip asciiUpper asciiLower) c of Some d \<Rightarrow> d | None \<Rightarrow> c)"

definition asciiToLower :: "string \<Rightarrow> string" where
  "asciiToLower s = map lowerChar s"

definition asciiEqualFold :: "string \<Rightarrow> string \<Rightarrow> bool" where
  "asciiEqualFold a b = (asciiToLower a = asciiToLower b)"

definition isSpace :: "char \<Rightarrow> bool" where
  "isSpace c = (c \<in> set [CHR '' '', CHR 0x09, CHR 0x0A, CHR 0x0B, CHR 0x0C, CHR 0x0D])"

definition asciiTrimSpace :: "string \<Rightarrow> string" where
  "asciiTrimSpace s = rev (dropWhile isSpace (rev (dropWhile isSpace s)))"

text \<open>\<open>strings.Split(s, sep)\<close> for a one-byte separator: always at least one part.\<close>

fun Split :: "string \<Rightarrow> char \<Rightarrow> string list" where
  "Split [] sep = [[]]"
| "Split (c # cs) sep =
     (if c = sep then [] # Split cs sep
      else (case Split cs sep of [] \<Rightarrow> [[c]] | p # ps \<Rightarrow> (c # p) # ps))"

text \<open>\<open>strings.SplitN(s, sep, 2)\<close> for a one-byte separator: cut at the first one.\<close>

definition SplitN2 :: "string \<Rightarrow> char \<Rightarrow> string list" where
  "SplitN2 s sep =
     (if sep \<in> set s
      then [takeWhile (\<lambda>c. c \<noteq> sep) s, drop 1 (dropWhile (\<lambda>c. c \<noteq> sep) s)]
      else [s])"

text \<open>
  \<open>strings.ReplaceAll(tok, [a, b], [r])\<close>: the non-overlapping occurrences of a two-byte
  sequence, from the left, replaced by one byte.
\<close>

fun ReplaceAll2 :: "string \<Rightarrow> char \<Rightarrow> char \<Rightarrow> char \<Rightarrow> string" where
  "ReplaceAll2 (x # y # cs) a b r =
     (if x = a \<and> y = b then r # ReplaceAll2 cs a b r else x # ReplaceAll2 (y # cs) a b r)"
| "ReplaceAll2 cs a b r = cs"

definition digits :: "(char \<times> nat) list" where
  "digits = [(CHR ''0'', 0), (CHR ''1'', 1), (CHR ''2'', 2), (CHR ''3'', 3), (CHR ''4'', 4),
             (CHR ''5'', 5), (CHR ''6'', 6), (CHR ''7'', 7), (CHR ''8'', 8), (CHR ''9'', 9)]"

text \<open>\<open>None\<close> is the source's test \<open>c < '0' || c > '9'\<close>; otherwise the value \<open>c - '0'\<close>.\<close>

definition digitVal :: "char \<Rightarrow> nat option" where
  "digitVal c = map_of digits c"

section \<open>JSON values and the library\<close>

text \<open>
  What \<open>json.Unmarshal\<close> into \<open>any\<close> produces: \<open>nil\<close>, \<open>bool\<close>, \<open>float64\<close>,
  \<open>string\<close>, \<open>[]any\<close> and \<open>map[string]any\<close>. A finite \<open>float64\<close> is a rational
  number; the engine only stores and compares these numbers. A Go map is an association
  list with distinct keys; where the source ranges over a map, the list order stands for
  the iteration order, which Go leaves unspecified.
\<close>

type_synonym float64 = rat

datatype json =
    JNull
  | JBool bool
  | JNum float64
  | JStr string
  | JArr "json list"
  | JObj "(string \<times> json) list"

text \<open>
  The library functions the engine calls and whose code is outside the repository:
  the Unicode-aware functions of \<open>strings\<close>, the regular-expression engine behind
  \<open>matchRegex\<close> (false when the pattern does not compile),
  \<open>regexp.ReplaceAllString\<close> (\<open>None\<close> when the pattern does not compile),
  \<open>encoding/json\<close>, \<open>strconv\<close>, \<open>encoding/base64\<close> and \<open>net/url\<close>. They are
  parameters of the model.
\<close>

record lib =
  ToLower :: "string \<Rightarrow> string"
  EqualFold :: "string \<Rightarrow> string \<Rightarrow> bool"
  TrimSpace :: "string \<Rightarrow> string"
  regexMatch :: "string \<Rightarrow> string \<Rightarrow> bool"
  regexReplaceAll :: "string \<Rightarrow> string \<Rightarrow> string \<Rightarrow> string option"
  jsonUnmarshal :: "string \<Rightarrow> json option"
  jsonMarshal :: "json \<Rightarrow> string option"
  formatFloat :: "float64 \<Rightarrow> string"
  base64Decode :: "string \<Rightarrow> string option"
  urlQuery :: "string \<Rightarrow> (string \<times> string) list option"
  urlSetQuery :: "string \<Rightarrow> (string \<times> string option) list \<Rightarrow> string option"

section \<open>JSON Pointer\<close>

text \<open>
  \<open>splitPtr\<close> skips the first byte and cuts at every \<open>/\<close>; its loop ends when the
  position reaches the end of the string, so a pointer that ends in \<open>/\<close> gets no empty
  last token. Each token has \<open>~1\<close> replaced by \<open>/\<close>, then \<open>~0\<close> by \<open>~\<close>.
\<close>

definition unescapeTok :: "string \<Rightarrow> string" where
  "unescapeTok tok =
     ReplaceAll2 (ReplaceAll2 tok (CHR ''~'') (CHR ''1'') (CHR ''/'')) (CHR ''~'') (CHR ''0'') (CHR ''~'')"

function splitFrom :: "string \<Rightarrow> string list" where
  "splitFrom [] = []"
| "splitFrom (c # cs) =
     unescapeTok (takeWhile (\<lambda>x. x \<noteq> CHR ''/'') (c # cs))
       # splitFrom (drop 1 (dropWhile (\<lambda>x. x \<noteq> CHR ''/'') (c # cs)))"
  by pat_completeness auto
termination
proof (relation "measure length")
  show "wf (measure length)" by simp
next
  fix c :: char and cs :: string
  have "length (dropWhile (\<lambda>x. x \<noteq> CHR ''/'') cs) \<le> length cs"
    by (rule length_dropWhile_le)
  then show "(drop 1 (dropWhile (\<lambda>x. x \<noteq> CHR ''/'') (c # cs)), c # cs) \<in> measure length"
    by (cases "c = CHR ''/''") (simp_all add: less_Suc_eq_le le_diff_conv)
qed

definition splitPtr :: "string \<Rightarrow> string list" where
  "splitPtr p = splitFrom (drop 1 p)"

text \<open>
  \<open>toIndex\<close> accumulates in a Go \<open>int\<close> (64 bits), so \<open>n*10 + d\<close> wraps around; the
  callers then test \<open>idx < 0 || idx >= len(c)\<close> on the signed value.
\<close>

fun toIndexLoop :: "64 word \<Rightarrow> string \<Rightarrow> 64 word option" where
  "toIndexLoop n [] = Some n"
| "toIndexLoop n (c # cs) =
     (case digitVal c of None \<Rightarrow> None | Some d \<Rightarrow> toIndexLoop (n * 10 + of_nat d) cs)"

definition toIndex :: "string \<Rightarrow> 64 word option" where
  "toIndex s = (if s = [] then None else toIndexLoop 0 s)"

definition inRange :: "64 word \<Rightarrow> 'a list \<Rightarrow> bool" where
  "inRange idx c = (if sint idx < 0 then False else sint idx < int (length c))"

text \<open>The walk shared by \<open>jsonPointer\<close> and \<open>getByPtr\<close>: one step per token.\<close>

fun walkPtr :: "json \<Rightarrow> string list \<Rightarrow> json option" where
  "walkPtr cur [] = Some cur"
| "walkPtr (JObj c) (t # ts) =
     (case map_of c t of None \<Rightarrow> None | Some tv \<Rightarrow> walkPtr tv ts)"
| "walkPtr (JArr c) (t # ts) =
     (case toIndex t of
        None \<Rightarrow> None
      | Some idx \<Rightarrow> if inRange idx c then walkPtr (c ! nat (sint idx)) ts else None)"
| "walkPtr cur (t # ts) = None"

definition jsonPointer :: "lib \<Rightarrow> string \<Rightarrow> string \<Rightarrow> string option" where
  "jsonPointer L body ptr =
     (case jsonUnmarshal L body of
        None \<Rightarrow> None
      | Some v \<Rightarrow>
          if ptr = [] then None
          else if hd ptr \<noteq> CHR ''/'' then None
          else (case walkPtr v (splitPtr ptr) of
                  None \<Rightarrow> None
                | Some (JStr x) \<Rightarrow> Some x
                | Some (JNum x) \<Rightarrow> Some (formatFloat L x)
                | Some (JBool x) \<Rightarrow> Some (if x then ''true'' else ''false'')
                | Some x \<Rightarrow> jsonMarshal L x))"

section \<open>Rules and actions\<close>

text \<open>
  The rule types the engine and the manager read. A Go pointer or a map that may be
  \<open>nil\<close> is an \<open>option\<close>; a map the code ranges over is an association list. The
  package that declares these types and the names of the patch operations and of the
  default actions is not among the files at hand: the fields are the ones the code
  reads, and the names are those of the rule format (\<open>add\<close>, \<open>remove\<close>, \<open>replace\<close>,
  \<open>copy\<close>, \<open>move\<close>, \<open>test\<close>; \<open>continue_original\<close>, \<open>continue_mutated\<close>,
  \<open>fulfill\<close>, \<open>fail\<close>).
\<close>

record Condition =
  cond_Type :: string
  cond_Mode :: string
  cond_Pattern :: string
  cond_Values :: "string list"
  cond_Key :: string
  cond_Op :: string
  cond_Value :: string
  cond_Pointer :: string

record Match =
  AllOf :: "Condition list"
  AnyOf :: "Condition list"
  NoneOf :: "Condition list"

record JSONPatchOp =
  patch_Op :: string
  patch_Path :: string
  patch_From :: string
  patch_Value :: json

record BodyPatch =
  Base64 :: "string option"
  TextRegex :: "(string \<times> string) option"
  JSONPatch :: "JSONPatchOp list"

record Rewrite =
  rw_URL :: "string option"
  rw_Method :: "string option"
  rw_Headers :: "(string \<times> string option) list option"
  rw_Query :: "(string \<times> string option) list option"
  rw_Cookies :: "(string \<times> string option) list option"
  rw_Body :: "BodyPatch option"

record Respond =
  resp_Status :: int
  resp_Headers :: "(string \<times> string) list"
  resp_Body :: string

record Fail =
  fail_Reason :: string

record PauseDefaultAction =
  da_Type :: string
  da_Status :: int
  da_Reason :: string

record Pause =
  TimeoutMS :: int
  DefaultAction :: PauseDefaultAction

record Action =
  act_Rewrite :: "Rewrite option"
  act_Respond :: "Respond option"
  act_Fail :: "Fail option"
  act_Pause :: "Pause option"
  DelayMS :: int
  DropRate :: float64

record Rule =
  rule_ID :: string
  rule_Priority :: int
  rule_Mode :: string
  rule_Match :: Match
  rule_Action :: Action

section \<open>The rule engine\<close>

record Ctx =
  ctx_URL :: string
  ctx_Method :: string
  ctx_Headers :: "string \<rightharpoonup> string"
  ctx_Query :: "string \<rightharpoonup> string"
  ctx_Cookies :: "string \<rightharpoonup> string"
  ctx_Body :: string
  ctx_ContentType :: string
  ctx_Stage :: string

definition glob :: "string \<Rightarrow> string \<Rightarrow> bool" where
  "glob s pattern =
     (if pattern = ''*'' then True
      else if HasPrefix pattern ''*'' \<and> HasSuffix s (TrimPrefix pattern ''*'') then True
      else if HasSuffix pattern ''*'' \<and> HasPrefix s (TrimSuffix pattern ''*'') then True
      else s = pattern)"

text \<open>The \<open>switch c.Op\<close> that closes each of the value cases of \<open>cond\<close>.\<close>

definition opSwitch :: "lib \<Rightarrow> string \<Rightarrow> string \<Rightarrow> string \<Rightarrow> bool" where
  "opSwitch L op' v val =
     (if op' = ''equals'' then v = val
      else if op' = ''contains'' then Contains v val
      else if op' = ''regex'' then regexMatch L v val
      else True)"

definition cond :: "lib \<Rightarrow> Ctx \<Rightarrow> Condition \<Rightarrow> bool" where
  "cond L ctx c =
     (if cond_Type c = ''url'' then
        (if cond_Mode c = ''prefix'' then HasPrefix (ctx_URL ctx) (cond_Pattern c)
         else if cond_Mode c = ''regex'' then regexMatch L (ctx_URL ctx) (cond_Pattern c)
         else if cond_Mode c = ''exact'' then ctx_URL ctx = cond_Pattern c
         else glob (ctx_URL ctx) (cond_Pattern c))
      else if cond_Type c = ''method'' then
         list_ex (\<lambda>v. EqualFold L (ctx_Method ctx) v) (cond_Values c)
      else if cond_Type c = ''header'' then
        (case ctx_Headers ctx (cond_Key c) of
           None \<Rightarrow> False
         | Some v \<Rightarrow> opSwitch L (cond_Op c) v (cond_Value c))
      else if cond_Type c = ''query'' then
        (case ctx_Query ctx (cond_Key c) of
           None \<Rightarrow> False
         | Some v \<Rightarrow> opSwitch L (cond_Op c) v (cond_Value c))
      else if cond_Type c = ''cookie'' then
        (case ctx_Cookies ctx (cond_Key c) of
           None \<Rightarrow> False
         | Some v \<Rightarrow> opSwitch L (cond_Op c) v (cond_Value c))
      else if cond_Type c = ''text'' then
        (if ctx_Body ctx = [] then False
         else opSwitch L (cond_Op c) (ctx_Body ctx) (cond_Value c))
      else if cond_Type c = ''json_pointer'' then
        (if ctx_Body ctx = [] then False
         else (case jsonPointer L (ctx_Body ctx) (cond_Pointer c) of
                 None \<Rightarrow> False
               | Some s \<Rightarrow> opSwitch L (cond_Op c) s (cond_Value c)))
      else False)"

definition allOf :: "lib \<Rightarrow> Ctx \<Rightarrow> Condition list \<Rightarrow> bool" where
  "allOf L ctx cs = list_all (cond L ctx) cs"

definition anyOf :: "lib \<Rightarrow> Ctx \<Rightarrow> Condition list \<Rightarrow> bool" where
  "anyOf L ctx cs = list_ex (cond L ctx) cs"

definition noneOf :: "lib \<Rightarrow> Ctx \<Rightarrow> Condition list \<Rightarrow> bool" where
  "noneOf L ctx cs = (if anyOf L ctx cs then False else True)"

definition matchRule :: "lib \<Rightarrow> Ctx \<Rightarrow> Match \<Rightarrow> bool" where
  "matchRule L ctx m =
     ((if AllOf m = [] then True else allOf L ctx (AllOf m))
      \<and> (if AnyOf m = [] then True else anyOf L ctx (AnyOf m))
      \<and> (if NoneOf m = [] then True else noneOf L ctx (NoneOf m)))"

text \<open>
  The loop of \<open>Engine.Eval\<close>, with the rule chosen so far: a matching rule replaces it
  when nothing is chosen yet or its priority is strictly greater, and the loop breaks
  when the rule that has just been chosen is in mode \<open>short_circuit\<close>.
\<close>

definition replaces :: "Rule \<Rightarrow> Rule option \<Rightarrow> bool" where
  "replaces r chosen =
     (case chosen of None \<Rightarrow> True | Some ch \<Rightarrow> rule_Priority ch < rule_Priority r)"

fun evalLoop :: "lib \<Rightarrow> Ctx \<Rightarrow> Rule option \<Rightarrow> Rule list \<Rightarrow> Rule option" where
  "evalLoop L ctx chosen [] = chosen"
| "evalLoop L ctx chosen (r # rs) =
     (if matchRule L ctx (rule_Match r) then
        (if replaces r chosen then
           (if rule_Mode r = ''short_circuit'' then Some r
            else evalLoop L ctx (Some r) rs)
         else evalLoop L ctx chosen rs)
      else evalLoop L ctx chosen rs)"

text \<open>The \<open>*Result\<close> of the source: the chosen rule's identifier and action, or \<open>nil\<close>.\<close>

type_synonym Result = "string \<times> Action"

definition resultOf :: "Rule \<Rightarrow> Result" where
  "resultOf r = (rule_ID r, rule_Action r)"

definition Eval :: "lib \<Rightarrow> Rule list \<Rightarrow> Ctx \<Rightarrow> Result option" where
  "Eval L rules ctx =
     (if rules = [] then None
      else map_option resultOf (evalLoop L ctx None rules))"

section \<open>The manager: data, channels and the adapter trace\<close>

text \<open>
  A paused event as the manager reads it. \<open>req_Headers\<close> is the JSON object of the
  request headers after \<open>json.Unmarshal\<close> into a \<open>map[string]string\<close>; the response
  headers are the protocol's list of name and value entries.
\<close>

record PausedEvent =
  RequestID :: string
  req_URL :: string
  req_Method :: string
  req_Headers :: "(string \<times> string) list"
  req_PostData :: "string option"
  ResponseStatusCode :: "int option"
  ResponseHeaders :: "(string \<times> string) list"

text \<open>
  The calls on the debugging client, with the arguments the manager fills in:
  request identifier first, then URL, method, headers and post data for
  \<open>ContinueRequest\<close>; response code and headers for \<open>ContinueResponse\<close>; response
  code, headers and body for \<open>FulfillRequest\<close>; the error reason for \<open>FailRequest\<close>.
  The manager ignores what these calls return, so the trace records the calls issued.
\<close>

datatype Call =
    ContinueRequest string "string option" "string option" "(string \<times> string) list" string
  | ContinueResponse string "int option" "(string \<times> string) list"
  | FulfillRequest string int "(string \<times> string) list" string
  | FailRequest string string
  | GetResponseBody string

fun isTerminating :: "Call \<Rightarrow> bool" where
  "isTerminating (GetResponseBody rid) = False"
| "isTerminating c = True"

fun callID :: "Call \<Rightarrow> string" where
  "callID (ContinueRequest rid u m h b) = rid"
| "callID (ContinueResponse rid c h) = rid"
| "callID (FulfillRequest rid c h b) = rid"
| "callID (FailRequest rid r) = rid"
| "callID (GetResponseBody rid) = rid"

record MEvent =
  ev_Type :: string
  ev_Rule :: "string option"

record PendingItem =
  pi_ID :: string
  pi_Stage :: string
  pi_URL :: string
  pi_Method :: string
  pi_Target :: string
  pi_Rule :: "string option"

text \<open>
  A Go channel: the buffered values, the capacity, and whether it has been closed. A
  \<open>nil\<close> channel is \<open>None\<close>. The model follows one goroutine and no other goroutine
  receives meanwhile: a plain send \<open>ch <- v\<close> on a full (or \<open>nil\<close>) channel leaves the
  sender parked, which is the status \<open>Blocked\<close>; a send on a closed channel panics, also
  inside a \<open>select\<close>; a \<open>select\<close> with a \<open>default\<close> branch never parks.
\<close>

record 'a chan =
  buf :: "'a list"
  cap :: nat
  closed :: bool

datatype status = Returned | Blocked | Panicked

text \<open>
  The worker pool when an event is dispatched: no pool at all, a pool of size zero
  (which has no queue), or a pool whose queue has a length and a capacity.
\<close>

datatype PoolState = NoPool | Unbounded | Bounded nat nat

record St =
  events :: "MEvent chan option"
  pending :: "PendingItem chan option"
  approvals :: "string set"
  calls :: "Call list"

text \<open>
  The manager's configuration, and what the surroundings decide during one event: the
  draw of \<open>rand.Float64\<close>, the time measured by \<open>time.Since(start)\<close> in nanoseconds, the
  rewrite that arrives on the approval channel before the pause timer fires (\<open>None\<close>
  when the timer fires first), the replies to the two \<open>GetResponseBody\<close> requests
  (body and base64 flag, \<open>None\<close> for an error), what a JSON patch that stores a map
  or a slice returns (see \<open>patchLoop\<close>), and whether the manager's context is already
  done when a worker comes to take the queued task.
\<close>

record Manager =
  engine :: "Rule list option"
  bodySizeThreshold :: "64 word"
  processTimeoutMS :: int
  currentTarget :: string
  pool :: PoolState

record Env =
  randFloat :: float64
  elapsedNS :: int
  approvalIn :: "Rewrite option"
  bodyForMatch :: "(string \<times> bool) option"
  bodyForRewrite :: "(string \<times> bool) option"
  sharedPatch :: "string option"
  ctxDone :: bool

type_synonym Proc = "St \<Rightarrow> status \<times> St"

definition andThen :: "Proc \<Rightarrow> Proc \<Rightarrow> Proc" where
  "andThen f g s = (case f s of (Returned, s') \<Rightarrow> g s' | (Blocked, s') \<Rightarrow> (Blocked, s')
                     | (Panicked, s') \<Rightarrow> (Panicked, s'))"

definition ret :: Proc where
  "ret s = (Returned, s)"

text \<open>The plain send \<open>m.events <- e\<close>.\<close>

definition sendBlocking :: "MEvent \<Rightarrow> Proc" where
  "sendBlocking e s =
     (case events s of
        None \<Rightarrow> (Blocked, s)
      | Some ch \<Rightarrow>
          if closed ch then (Panicked, s)
          else if length (buf ch) < cap ch
          then (Returned, s\<lparr>events := Some (ch\<lparr>buf := buf ch @ [e]\<rparr>)\<rparr>)
          else (Blocked, s))"

section \<open>Building the rule context\<close>

definition parseCookie :: "lib \<Rightarrow> string \<Rightarrow> (string \<times> string) list" where
  "parseCookie L s =
     foldl (\<lambda>out p. case SplitN2 (TrimSpace L p) (CHR ''='') of
                        [k, v] \<Rightarrow> AList.update k v out
                      | _ \<Rightarrow> out)
           [] (Split s (CHR '';''))"

definition parseSetCookie :: "lib \<Rightarrow> string \<Rightarrow> string \<times> string" where
  "parseSetCookie L s =
     (let first = TrimSpace L (takeWhile (\<lambda>c. c \<noteq> CHR '';'') s)
      in case SplitN2 first (CHR ''='') of [k, v] \<Rightarrow> (k, v) | _ \<Rightarrow> ([], []))"

text \<open>\<open>parseInt64\<close>: the digits accumulated in an \<open>int64\<close>, which wraps around.\<close>

fun parseInt64Loop :: "64 word \<Rightarrow> string \<Rightarrow> 64 word option" where
  "parseInt64Loop n [] = Some n"
| "parseInt64Loop n (c # cs) =
     (case digitVal c of None \<Rightarrow> None | Some d \<Rightarrow> parseInt64Loop (n * 10 + of_nat d) cs)"

definition parseInt64 :: "string \<Rightarrow> 64 word option" where
  "parseInt64 s = map_option (\<lambda>n. n * 1) (parseInt64Loop 0 s)"

definition effectiveThreshold :: "64 word \<Rightarrow> 64 word" where
  "effectiveThreshold thr = (if sint thr \<le> 0 then 4 * 1024 * 1024 else thr)"

definition shouldGetBody :: "lib \<Rightarrow> string \<Rightarrow> 64 word \<Rightarrow> 64 word \<Rightarrow> bool" where
  "shouldGetBody L ctype clen thr =
     (if 0 < sint clen \<and> sint (effectiveThreshold thr) < sint clen then False
      else if HasPrefix (ToLower L ctype) ''text/'' then True
      else if HasPrefix (ToLower L ctype) ''application/json'' then True
      else False)"

text \<open>Decoding a \<open>GetResponseBody\<close> reply, as \<open>buildRuleContext\<close> does: any failure
  leaves the body text empty.\<close>

definition decodeBody :: "lib \<Rightarrow> (string \<times> bool) option \<Rightarrow> string option" where
  "decodeBody L rb =
     (case rb of
        None \<Rightarrow> None
      | Some (body, base64Encoded) \<Rightarrow> if base64Encoded then base64Decode L body else Some body)"

definition lowerKeys :: "lib \<Rightarrow> (string \<times> string) list \<Rightarrow> (string \<rightharpoonup> string)" where
  "lowerKeys L kvs = foldl (\<lambda>m kv. m(ToLower L (fst kv) \<mapsto> snd kv)) Map.empty kvs"

definition setCookieStep ::
  "lib \<Rightarrow> (string \<rightharpoonup> string) \<Rightarrow> string \<times> string \<Rightarrow> (string \<rightharpoonup> string)" where
  "setCookieStep L ck kv =
     (if EqualFold L (fst kv) ''set-cookie''
      then (case parseSetCookie L (snd kv) of
              (name, val) \<Rightarrow> if name = [] then ck else ck(ToLower L name \<mapsto> val))
      else ck)"

definition lastContentType :: "lib \<Rightarrow> (string \<times> string) list \<Rightarrow> string" where
  "lastContentType L kvs =
     foldl (\<lambda>ctype kv. if EqualFold L (fst kv) ''content-type'' then snd kv else ctype) [] kvs"

definition contentLengthOf :: "(string \<rightharpoonup> string) \<Rightarrow> 64 word" where
  "contentLengthOf h =
     (case h ''content-length'' of
        None \<Rightarrow> 0
      | Some v \<Rightarrow> (case parseInt64 v of None \<Rightarrow> 0 | Some n \<Rightarrow> n))"

text \<open>
  \<open>buildRuleContext\<close> returns the context and, in the response stage, may request the
  body: the second component is the list of client calls it issued.
\<close>

definition buildRuleContext :: "lib \<Rightarrow> Manager \<Rightarrow> Env \<Rightarrow> PausedEvent \<Rightarrow> string \<Rightarrow> Ctx \<times> Call list" where
  "buildRuleContext L m E ev stage =
     (if stage = ''response'' then
        (let h = lowerKeys L (ResponseHeaders ev);
             ck = foldl (setCookieStep L) Map.empty (ResponseHeaders ev);
             ctype = lastContentType L (ResponseHeaders ev);
             clen = contentLengthOf h;
             fetch = shouldGetBody L ctype clen (bodySizeThreshold m);
             bodyText = (if fetch then (case decodeBody L (bodyForMatch E) of
                                          None \<Rightarrow> [] | Some b \<Rightarrow> b)
                         else [])
         in (\<lparr>ctx_URL = req_URL ev, ctx_Method = req_Method ev, ctx_Headers = h,
              ctx_Query = Map.empty, ctx_Cookies = ck, ctx_Body = bodyText,
              ctx_ContentType = ctype, ctx_Stage = stage\<rparr>,
             if fetch then [GetResponseBody (RequestID ev)] else []))
      else
        (let h = lowerKeys L (req_Headers ev);
             q = (if req_URL ev = [] then Map.empty
                  else (case urlQuery L (req_URL ev) of
                          None \<Rightarrow> Map.empty
                        | Some kvs \<Rightarrow> lowerKeys L kvs));
             ck = (case h ''cookie'' of
                     None \<Rightarrow> Map.empty
                   | Some v \<Rightarrow> lowerKeys L (parseCookie L v));
             ctype = (case h ''content-type'' of None \<Rightarrow> [] | Some v \<Rightarrow> v);
             bodyText = (case req_PostData ev of None \<Rightarrow> [] | Some b \<Rightarrow> b)
         in (\<lparr>ctx_URL = req_URL ev, ctx_Method = req_Method ev, ctx_Headers = h,
              ctx_Query = q, ctx_Cookies = ck, ctx_Body = bodyText,
              ctx_ContentType = ctype, ctx_Stage = stage\<rparr>, [])))"

definition decide :: "lib \<Rightarrow> Manager \<Rightarrow> Env \<Rightarrow> PausedEvent \<Rightarrow> string \<Rightarrow> Result option \<times> Call list" where
  "decide L m E ev stage =
     (case engine m of
        None \<Rightarrow> (None, [])
      | Some rules \<Rightarrow>
          (case buildRuleContext L m E ev stage of
             (ctx, cs) \<Rightarrow> (Eval L rules ctx, cs)))"

section \<open>JSON Patch\<close>

text \<open>
  The patch functions on JSON values. The source updates maps and slices in place and
  returns them; the model returns the updated value. The two agree as long as no map
  or slice is reachable along two paths; \<open>patchLoop\<close> below keeps to that case.
  \<open>c[t] = v\<close> on a map is \<open>AList.update\<close>.
\<close>

fun setRec :: "json \<Rightarrow> string list \<Rightarrow> json \<Rightarrow> json" where
  "setRec cur [] val = val"
| "setRec (JObj c) (t # ts) val =
     JObj (AList.update t
             (setRec (case map_of c t of None \<Rightarrow> JObj [] | Some child \<Rightarrow> child) ts val) c)"
| "setRec (JArr c) (t # ts) val =
     (case toIndex t of
        None \<Rightarrow> JArr c
      | Some idx \<Rightarrow>
          if inRange idx c
          then JArr (c[nat (sint idx) := setRec (c ! nat (sint idx)) ts val])
          else JArr c)"
| "setRec cur (t # ts) val = (if ts = [] then val else cur)"

text \<open>\<open>setByPtr\<close> takes the flag \<open>replace\<close> and does not read it.\<close>

definition setByPtr :: "json \<Rightarrow> string \<Rightarrow> json \<Rightarrow> bool \<Rightarrow> json" where
  "setByPtr cur ptr val replace =
     (if ptr = [] then cur
      else if hd ptr \<noteq> CHR ''/'' then cur
      else setRec cur (splitPtr ptr) val)"

fun removeRec :: "json \<Rightarrow> string list \<Rightarrow> json" where
  "removeRec cur [] = cur"
| "removeRec (JObj c) (t # ts) =
     (if ts = [] then JObj (AList.delete t c)
      else (case map_of c t of
              None \<Rightarrow> JObj c
            | Some child \<Rightarrow> JObj (AList.update t (removeRec child ts) c)))"
| "removeRec (JArr c) (t # ts) =
     (case toIndex t of
        None \<Rightarrow> JArr c
      | Some idx \<Rightarrow>
          if inRange idx c
          then (if ts = [] then JArr (take (nat (sint idx)) c @ drop (Suc (nat (sint idx))) c)
                else JArr (c[nat (sint idx) := removeRec (c ! nat (sint idx)) ts]))
          else JArr c)"
| "removeRec cur (t # ts) = cur"

definition removeByPtr :: "json \<Rightarrow> string \<Rightarrow> json" where
  "removeByPtr cur ptr =
     (if ptr = [] then cur
      else if hd ptr \<noteq> CHR ''/'' then cur
      else removeRec cur (splitPtr ptr))"

definition getByPtr :: "json \<Rightarrow> string \<Rightarrow> json option" where
  "getByPtr cur ptr =
     (if ptr = [] then None
      else if hd ptr \<noteq> CHR ''/'' then None
      else walkPtr cur (splitPtr ptr))"

text \<open>\<open>reflect.DeepEqual\<close> on decoded JSON: objects are compared as maps.\<close>

function (sequential) deepEqual :: "json \<Rightarrow> json \<Rightarrow> bool" where
  "deepEqual (JObj a) (JObj b) =
     (length a = length b
      \<and> list_all (\<lambda>kv. case map_of b (fst kv) of
                          None \<Rightarrow> False
                        | Some w \<Rightarrow> deepEqual (snd kv) w) a)"
| "deepEqual (JArr a) (JArr b) =
     (length a = length b \<and> list_all (\<lambda>vw. deepEqual (fst vw) (snd vw)) (zip a b))"
| "deepEqual a b = (a = b)"
  by pat_completeness auto
termination
proof (relation "measure (\<lambda>p. size (fst p))")
  show "wf (measure (\<lambda>p. size (fst p)))" by simp
next
  fix a b :: "(string \<times> json) list" and x :: "string \<times> json" and x2 :: json
  assume "x \<in> set a"
  then have "size (snd x) < size_list (size_prod (\<lambda>k. 0) size) a"
    by (rule size_list_estimation) (simp add: size_prod_simp)
  then show "((snd x, x2), JObj a, JObj b) \<in> measure (\<lambda>p. size (fst p))"
    by simp
next
  fix a b :: "json list" and x :: "json \<times> json"
  assume "x \<in> set (zip a b)"
  then have "fst x \<in> set a" by (metis prod.collapse set_zip_leftD)
  then have "size (fst x) < Suc (size_list size a)"
    by (rule size_list_estimation' [THEN le_imp_less_Suc]) simp
  then show "((fst x, snd x), JArr a, JArr b) \<in> measure (\<lambda>p. size (fst p))"
    by simp
qed

text \<open>
  The loop of \<open>applyJSONPatch\<close> over the operations, on the decoded document.
  \<open>Aborted\<close> is the source's \<open>return "", false\<close>. An operation of another name than
  the six is passed over.

  The source stores a value by reference. A map or a slice that \<open>copy\<close> or \<open>move\<close>
  takes from the document, or that \<open>add\<close> or \<open>replace\<close> takes from the operation
  while further operations follow, is from then on reachable along two paths (or,
  copied below itself, along a cycle), and a later write reaches both. The loop
  stops there with \<open>Shared\<close>: the model does not follow references, and what
  \<open>applyJSONPatch\<close> returns for such a patch is left to the surroundings
  (\<open>sharedPatch\<close>). Scalars are stored by value.
\<close>

datatype patched = Patched json | Aborted | Shared

fun isScalar :: "json \<Rightarrow> bool" where
  "isScalar (JArr xs) = False"
| "isScalar (JObj kvs) = False"
| "isScalar v = True"

fun patchLoop :: "json \<Rightarrow> JSONPatchOp list \<Rightarrow> patched" where
  "patchLoop v [] = Patched v"
| "patchLoop v (p # ps) =
     (if patch_Op p = ''add'' \<or> patch_Op p = ''replace''
      then (if isScalar (patch_Value p) \<or> ps = []
            then patchLoop
                   (setByPtr v (patch_Path p) (patch_Value p) (patch_Op p = ''replace'')) ps
            else Shared)
      else if patch_Op p = ''remove''
      then patchLoop (removeByPtr v (patch_Path p)) ps
      else if patch_Op p = ''copy''
      then (case getByPtr v (patch_From p) of
              None \<Rightarrow> Aborted
            | Some src \<Rightarrow>
                if isScalar src then patchLoop (setByPtr v (patch_Path p) src True) ps
                else Shared)
      else if patch_Op p = ''move''
      then (case getByPtr v (patch_From p) of
              None \<Rightarrow> Aborted
            | Some src \<Rightarrow>
                if isScalar src
                then patchLoop
                       (setByPtr (removeByPtr v (patch_From p)) (patch_Path p) src True) ps
                else Shared)
      else if patch_Op p = ''test''
      then (case getByPtr v (patch_Path p) of
              None \<Rightarrow> Aborted
            | Some cur \<Rightarrow> if deepEqual cur (patch_Value p) then patchLoop v ps else Aborted)
      else patchLoop v ps)"

definition applyJSONPatch :: "lib \<Rightarrow> Env \<Rightarrow> string \<Rightarrow> JSONPatchOp list \<Rightarrow> string option" where
  "applyJSONPatch L E doc ops =
     (case (if doc = [] then Some (JObj []) else jsonUnmarshal L doc) of
        None \<Rightarrow> None
      | Some v \<Rightarrow>
          (case patchLoop v ops of
             Aborted \<Rightarrow> None
           | Shared \<Rightarrow> sharedPatch E
           | Patched v' \<Rightarrow> jsonMarshal L v'))"

definition applyBodyPatch :: "lib \<Rightarrow> Env \<Rightarrow> string \<Rightarrow> BodyPatch option \<Rightarrow> string option" where
  "applyBodyPatch L E src bp' =
     (case bp' of
        None \<Rightarrow> None
      | Some bp \<Rightarrow>
          (case Base64 bp of
             Some value \<Rightarrow> base64Decode L value
           | None \<Rightarrow>
               (case TextRegex bp of
                  Some (pattern, replace) \<Rightarrow> regexReplaceAll L pattern src replace
                | None \<Rightarrow>
                    if JSONPatch bp = [] then None
                    else applyJSONPatch L E src (JSONPatch bp))))"

section \<open>Terminating actions\<close>

text \<open>
  The functions that only talk to the client are modelled by the list of calls they
  issue, in order. \<open>perform\<close> appends such a list to the trace.
\<close>

definition perform :: "Call list \<Rightarrow> Proc" where
  "perform cs s = (Returned, s\<lparr>calls := calls s @ cs\<rparr>)"

definition applyContinue :: "PausedEvent \<Rightarrow> string \<Rightarrow> Call list" where
  "applyContinue ev stage =
     (if stage = ''response'' then [ContinueResponse (RequestID ev) None []]
      else [ContinueRequest (RequestID ev) None None [] []])"

definition applyFail :: "PausedEvent \<Rightarrow> Fail \<Rightarrow> Call list" where
  "applyFail ev f = [FailRequest (RequestID ev) ''Failed'']"

definition toHeaderEntries :: "(string \<times> string) list \<Rightarrow> (string \<times> string) list" where
  "toHeaderEntries h = h"

definition continueResponseWithModifications :: "PausedEvent \<Rightarrow> Respond \<Rightarrow> Call list" where
  "continueResponseWithModifications ev r =
     [ContinueResponse (RequestID ev)
        (if resp_Status r = 0 then None else Some (resp_Status r))
        (toHeaderEntries (resp_Headers r))]"

definition fulfillRequest :: "PausedEvent \<Rightarrow> Respond \<Rightarrow> Call list" where
  "fulfillRequest ev r =
     [FulfillRequest (RequestID ev) (resp_Status r) (toHeaderEntries (resp_Headers r))
        (resp_Body r)]"

definition applyRespond :: "PausedEvent \<Rightarrow> Respond \<Rightarrow> string \<Rightarrow> Call list" where
  "applyRespond ev r stage =
     (if stage = ''response'' \<and> resp_Body r = [] then continueResponseWithModifications ev r
      else fulfillRequest ev r)"

section \<open>Rewrites\<close>

definition getCurrentResponseHeaders :: "lib \<Rightarrow> PausedEvent \<Rightarrow> (string \<times> string) list" where
  "getCurrentResponseHeaders L ev =
     foldl (\<lambda>cur kv. AList.update (ToLower L (fst kv)) (snd kv) cur) [] (ResponseHeaders ev)"

definition applyHeaderPatch ::
  "lib \<Rightarrow> (string \<times> string) list \<Rightarrow> (string \<times> string option) list option
     \<Rightarrow> (string \<times> string) list" where
  "applyHeaderPatch L cur patch =
     (case patch of
        None \<Rightarrow> cur
      | Some kvs \<Rightarrow>
          foldl (\<lambda>c kv. case snd kv of
                           None \<Rightarrow> AList.delete (ToLower L (fst kv)) c
                         | Some v \<Rightarrow> AList.update (ToLower L (fst kv)) v c) cur kvs)"

definition extractResponseMetadata :: "lib \<Rightarrow> PausedEvent \<Rightarrow> string \<times> 64 word" where
  "extractResponseMetadata L ev =
     foldl (\<lambda>acc kv.
              (if EqualFold L (fst kv) ''content-type'' then snd kv else fst acc,
               if EqualFold L (fst kv) ''content-length''
               then (case parseInt64 (snd kv) of None \<Rightarrow> snd acc | Some n \<Rightarrow> n)
               else snd acc))
           ([], 0) (ResponseHeaders ev)"

text \<open>\<open>fetchResponseBody\<close> issues the request; this is how it reads the reply.\<close>

definition fetchResponseBody :: "lib \<Rightarrow> Env \<Rightarrow> string option" where
  "fetchResponseBody L E = decodeBody L (bodyForRewrite E)"

definition statusOr200 :: "PausedEvent \<Rightarrow> int" where
  "statusOr200 ev = (case ResponseStatusCode ev of None \<Rightarrow> 200 | Some code \<Rightarrow> code)"

definition applyResponseRewrite :: "lib \<Rightarrow> Manager \<Rightarrow> Env \<Rightarrow> PausedEvent \<Rightarrow> Rewrite \<Rightarrow> Call list" where
  "applyResponseRewrite L m E ev rw =
     (case rw_Body rw of
        None \<Rightarrow>
          (case rw_Headers rw of
             Some hp \<Rightarrow>
               [ContinueResponse (RequestID ev) None
                  (toHeaderEntries
                     (applyHeaderPatch L (getCurrentResponseHeaders L ev) (Some hp)))]
           | None \<Rightarrow> [ContinueResponse (RequestID ev) None []])
      | Some bp \<Rightarrow>
          (case extractResponseMetadata L ev of
             (ctype, clen) \<Rightarrow>
               if shouldGetBody L ctype clen (bodySizeThreshold m)
               then GetResponseBody (RequestID ev) #
                      (case fetchResponseBody L E of
                         None \<Rightarrow> [ContinueResponse (RequestID ev) None []]
                       | Some bodyText \<Rightarrow>
                           (case applyBodyPatch L E bodyText (Some bp) of
                              None \<Rightarrow> [ContinueResponse (RequestID ev) None []]
                            | Some newBody \<Rightarrow>
                                if newBody = []
                                then [ContinueResponse (RequestID ev) None []]
                                else [FulfillRequest (RequestID ev) (statusOr200 ev)
                                        (toHeaderEntries
                                           (applyHeaderPatch L (getCurrentResponseHeaders L ev)
                                              (rw_Headers rw)))
                                        newBody]))
               else [ContinueResponse (RequestID ev) None []]))"

fun joinCookies :: "(string \<times> string) list \<Rightarrow> string" where
  "joinCookies [] = []"
| "joinCookies [kv] = fst kv @ ''='' @ snd kv"
| "joinCookies (kv # rest) = fst kv @ ''='' @ snd kv @ ''; '' @ joinCookies rest"

text \<open>
  \<open>buildRequestHeaders\<close> starts from an empty list: it appends the rewrite's entries
  whose value is not \<open>nil\<close>, then the rebuilt \<open>Cookie\<close> entry when the rewrite has
  cookies. It does not read the request's own headers except to find the cookie.
\<close>

definition buildRequestHeaders :: "lib \<Rightarrow> Rewrite \<Rightarrow> PausedEvent \<Rightarrow> (string \<times> string) list" where
  "buildRequestHeaders L rw ev =
     (case rw_Headers rw of
        None \<Rightarrow> []
      | Some kvs \<Rightarrow> List.map_filter (\<lambda>kv. map_option (Pair (fst kv)) (snd kv)) kvs)
     @ (case rw_Cookies rw of
          None \<Rightarrow> []
        | Some cks \<Rightarrow>
            (let cookie = (case find (\<lambda>kv. EqualFold L (fst kv) ''cookie'') (req_Headers ev) of
                             None \<Rightarrow> []
                           | Some kv \<Rightarrow> snd kv);
                 cm = foldl (\<lambda>c kv. case snd kv of
                                        None \<Rightarrow> AList.delete (fst kv) c
                                      | Some v \<Rightarrow> AList.update (fst kv) v c)
                            (parseCookie L cookie) cks
             in if cm = [] then [] else [(''Cookie'', joinCookies cm)]))"

definition buildRequestBody :: "lib \<Rightarrow> Env \<Rightarrow> Rewrite \<Rightarrow> PausedEvent \<Rightarrow> string" where
  "buildRequestBody L E rw ev =
     (case rw_Body rw of
        None \<Rightarrow> []
      | Some bp \<Rightarrow>
          (case applyBodyPatch L E (case req_PostData ev of None \<Rightarrow> [] | Some src \<Rightarrow> src)
                  (Some bp) of
             None \<Rightarrow> []
           | Some b \<Rightarrow> b))"

definition applyRequestRewrite :: "lib \<Rightarrow> Env \<Rightarrow> PausedEvent \<Rightarrow> Rewrite \<Rightarrow> Call list" where
  "applyRequestRewrite L E ev rw =
     [ContinueRequest (RequestID ev)
        (case rw_Query rw of
           None \<Rightarrow> rw_URL rw
         | Some q \<Rightarrow>
             (case rw_URL rw of
                Some u \<Rightarrow> Some u
              | None \<Rightarrow> urlSetQuery L (req_URL ev) q))
        (rw_Method rw)
        (buildRequestHeaders L rw ev)
        (buildRequestBody L E rw ev)]"

definition applyRewrite :: "lib \<Rightarrow> Manager \<Rightarrow> Env \<Rightarrow> PausedEvent \<Rightarrow> Rewrite \<Rightarrow> string \<Rightarrow> Call list" where
  "applyRewrite L m E ev rw stage =
     (if stage = ''response'' then applyResponseRewrite L m E ev rw
      else applyRequestRewrite L E ev rw)"

section \<open>Pause and approval\<close>

definition notNil :: "'a option \<Rightarrow> bool" where
  "notNil x = (case x of None \<Rightarrow> False | Some y \<Rightarrow> True)"

definition nonEmpty :: "'a list option \<Rightarrow> bool" where
  "nonEmpty x = (case x of None \<Rightarrow> False | Some [] \<Rightarrow> False | Some (y # ys) \<Rightarrow> True)"

definition hasEffectiveMutations :: "Rewrite \<Rightarrow> bool" where
  "hasEffectiveMutations mut =
     (notNil (rw_Body mut) \<or> notNil (rw_URL mut) \<or> notNil (rw_Method mut)
      \<or> nonEmpty (rw_Headers mut) \<or> nonEmpty (rw_Query mut) \<or> nonEmpty (rw_Cookies mut))"

definition applyPauseDefaultAction :: "PausedEvent \<Rightarrow> Pause \<Rightarrow> string \<Rightarrow> Call list" where
  "applyPauseDefaultAction ev p stage =
     (if da_Type (DefaultAction p) = ''fulfill''
      then applyRespond ev \<lparr>resp_Status = da_Status (DefaultAction p), resp_Headers = [],
                             resp_Body = []\<rparr> stage
      else if da_Type (DefaultAction p) = ''fail''
      then applyFail ev \<lparr>fail_Reason = da_Reason (DefaultAction p)\<rparr>
      else if da_Type (DefaultAction p) = ''continue_mutated''
      then applyContinue ev stage
      else applyContinue ev stage)"

definition registerApproval :: "string \<Rightarrow> Proc" where
  "registerApproval rid s = (Returned, s\<lparr>approvals := insert rid (approvals s)\<rparr>)"

definition unregisterApproval :: "string \<Rightarrow> Proc" where
  "unregisterApproval rid s = (Returned, s\<lparr>approvals := approvals s - {rid}\<rparr>)"

definition handlePauseOverflow :: "string \<Rightarrow> PausedEvent \<Rightarrow> Pause \<Rightarrow> string \<Rightarrow> Proc" where
  "handlePauseOverflow rid ev p stage =
     andThen (perform (applyPauseDefaultAction ev p stage))
       (andThen (sendBlocking \<lparr>ev_Type = ''degraded'', ev_Rule = None\<rparr>)
          (unregisterApproval rid))"

text \<open>
  \<open>sendPendingItem\<close> returns whether the item was queued; with a full queue it runs
  \<open>handlePauseOverflow\<close> and returns false.
\<close>

definition sendPendingItem ::
  "Manager \<Rightarrow> string \<Rightarrow> string \<Rightarrow> PausedEvent \<Rightarrow> string option \<Rightarrow> Pause \<Rightarrow> St \<Rightarrow> status \<times> bool \<times> St" where
  "sendPendingItem m rid stage ev ruleID p s =
     (case pending s of
        None \<Rightarrow> (Returned, True, s)
      | Some ch \<Rightarrow>
          if closed ch then (Panicked, False, s)
          else if length (buf ch) < cap ch
          then (Returned, True,
                s\<lparr>pending := Some (ch\<lparr>buf := buf ch @
                     [\<lparr>pi_ID = rid, pi_Stage = stage, pi_URL = req_URL ev,
                       pi_Method = req_Method ev, pi_Target = currentTarget m,
                       pi_Rule = ruleID\<rparr>]\<rparr>)\<rparr>)
          else (case handlePauseOverflow rid ev p stage s of (st, s') \<Rightarrow> (st, False, s')))"

text \<open>
  \<open>waitForApproval\<close> waits for the approval channel or for the timer of \<open>timeoutMS\<close>;
  which of the two comes first is the surroundings' doing.
\<close>

definition waitForApproval :: "Env \<Rightarrow> int \<Rightarrow> Rewrite option" where
  "waitForApproval E timeoutMS = approvalIn E"

definition applyApprovalResult ::
  "lib \<Rightarrow> Manager \<Rightarrow> Env \<Rightarrow> PausedEvent \<Rightarrow> Rewrite option \<Rightarrow> Pause \<Rightarrow> string \<Rightarrow> Call list" where
  "applyApprovalResult L m E ev mut p stage =
     (case mut of
        Some rw \<Rightarrow> if hasEffectiveMutations rw then applyRewrite L m E ev rw stage
                   else applyContinue ev stage
      | None \<Rightarrow> applyPauseDefaultAction ev p stage)"

definition applyPause ::
  "lib \<Rightarrow> Manager \<Rightarrow> Env \<Rightarrow> PausedEvent \<Rightarrow> Pause \<Rightarrow> string \<Rightarrow> string option \<Rightarrow> Proc" where
  "applyPause L m E ev p stage ruleID s =
     (case sendPendingItem m (RequestID ev) stage ev ruleID p
             (snd (registerApproval (RequestID ev) s)) of
        (Returned, True, s') \<Rightarrow>
          andThen
            (perform (applyApprovalResult L m E ev (waitForApproval E (TimeoutMS p)) p stage))
            (unregisterApproval (RequestID ev)) s'
      | (st, queued, s') \<Rightarrow> (st, s'))"

section \<open>Handling one paused event\<close>

definition stageOf :: "PausedEvent \<Rightarrow> string" where
  "stageOf ev = (case ResponseStatusCode ev of None \<Rightarrow> ''request'' | Some code \<Rightarrow> ''response'')"

definition budgetMS :: "Manager \<Rightarrow> int" where
  "budgetMS m = (if processTimeoutMS m \<le> 0 then 3000 else processTimeoutMS m)"

definition mkEvent :: "string \<Rightarrow> string option \<Rightarrow> MEvent" where
  "mkEvent t r = \<lparr>ev_Type = t, ev_Rule = r\<rparr>"

text \<open>
  What \<open>handle\<close> does once \<open>decide\<close> has returned a rule and its action. The sleep of
  \<open>DelayMS\<close> only adds to the time that \<open>time.Since(start)\<close> then measures.
\<close>

definition runAction ::
  "lib \<Rightarrow> Manager \<Rightarrow> Env \<Rightarrow> PausedEvent \<Rightarrow> string \<Rightarrow> string \<Rightarrow> Action \<Rightarrow> Proc" where
  "runAction L m E ev stg rid a =
     (if 0 < DropRate a \<and> randFloat E < DropRate a
      then andThen (perform (applyContinue ev stg)) (sendBlocking (mkEvent ''degraded'' None))
      else if budgetMS m * 1000000 < elapsedNS E
      then andThen (perform (applyContinue ev stg)) (sendBlocking (mkEvent ''degraded'' None))
      else (case act_Pause a of
              Some p \<Rightarrow> applyPause L m E ev p stg (Some rid)
            | None \<Rightarrow>
           (case act_Fail a of
              Some f \<Rightarrow> andThen (perform (applyFail ev f))
                          (sendBlocking (mkEvent ''failed'' (Some rid)))
            | None \<Rightarrow>
           (case act_Respond a of
              Some r \<Rightarrow> andThen (perform (applyRespond ev r stg))
                          (sendBlocking (mkEvent ''fulfilled'' (Some rid)))
            | None \<Rightarrow>
           (case act_Rewrite a of
              Some rw \<Rightarrow> andThen (perform (applyRewrite L m E ev rw stg))
                           (sendBlocking (mkEvent ''mutated'' (Some rid)))
            | None \<Rightarrow> perform (applyContinue ev stg))))))"

definition handle :: "lib \<Rightarrow> Manager \<Rightarrow> Env \<Rightarrow> PausedEvent \<Rightarrow> Proc" where
  "handle L m E ev =
     andThen (sendBlocking (mkEvent ''intercepted'' None))
       (case decide L m E ev (stageOf ev) of
          (res, cs) \<Rightarrow>
            andThen (perform cs)
              (case res of
                 None \<Rightarrow> perform (applyContinue ev (stageOf ev))
               | Some (rid, a) \<Rightarrow> runAction L m E ev (stageOf ev) rid a))"

definition degradeAndContinue :: "PausedEvent \<Rightarrow> Proc" where
  "degradeAndContinue ev =
     andThen (perform [ContinueRequest (RequestID ev) None None [] []])
       (sendBlocking (mkEvent ''degraded'' None))"

text \<open>
  The worker's \<open>select\<close> either sees the context done and returns, or takes the task
  and calls it. Nothing is deferred around the call, so the task's panic is the
  worker's.
\<close>

definition worker :: "Env \<Rightarrow> Proc \<Rightarrow> Proc" where
  "worker E fn = (if ctxDone E then ret else fn)"

text \<open>
  \<open>dispatchPaused\<close> with \<open>submit\<close>: without a pool, or with a pool of size zero, the
  handler runs in a goroutine of its own; otherwise the task is queued for a worker when
  the queue has room, and the event is degraded when it has not.
\<close>

definition dispatchPaused :: "lib \<Rightarrow> Manager \<Rightarrow> Env \<Rightarrow> PausedEvent \<Rightarrow> Proc" where
  "dispatchPaused L m E ev =
     (case pool m of
        NoPool \<Rightarrow> handle L m E ev
      | Unbounded \<Rightarrow> handle L m E ev
      | Bounded queueLen queueCap \<Rightarrow>
          if queueLen < queueCap then worker E (handle L m E ev)
          else degradeAndContinue ev)"

section \<open>Event emission in the other handlers\<close>

text \<open>
  \<open>sendEvent\<close>, and \<open>sendMatchedEvent\<close> of the handler package after its test for a
  \<open>nil\<close> channel: the send sits inside a \<open>select\<close> with an empty \<open>default\<close>, so a
  full or \<open>nil\<close> channel drops the event.
\<close>

definition sendEvent :: "MEvent \<Rightarrow> Proc" where
  "sendEvent e s =
     (case events s of
        None \<Rightarrow> (Returned, s)
      | Some ch \<Rightarrow>
          if closed ch then (Panicked, s)
          else if length (buf ch) < cap ch
          then (Returned, s\<lparr>events := Some (ch\<lparr>buf := buf ch @ [e]\<rparr>)\<rparr>)
          else (Returned, s))"

section \<open>Reference notions and concrete inputs\<close>

text \<open>
  The notions the statements below compare the engine with: the rules that match, in
  declaration order; the first of them; and the first of those whose priority no other
  matching rule exceeds.
\<close>

definition matches :: "lib \<Rightarrow> Ctx \<Rightarrow> Rule \<Rightarrow> bool" where
  "matches L ctx r = matchRule L ctx (rule_Match r)"

definition matching :: "lib \<Rightarrow> Ctx \<Rightarrow> Rule list \<Rightarrow> Rule list" where
  "matching L ctx rs = filter (matches L ctx) rs"

definition firstMatch :: "lib \<Rightarrow> Ctx \<Rightarrow> Rule list \<Rightarrow> Rule option" where
  "firstMatch L ctx rs = find (matches L ctx) rs"

definition topPriority :: "Rule list \<Rightarrow> Rule \<Rightarrow> bool" where
  "topPriority ms m = list_all (\<lambda>m'. rule_Priority m' \<le> rule_Priority m) ms"

definition firstTop :: "Rule list \<Rightarrow> Rule option" where
  "firstTop ms = find (topPriority ms) ms"

definition isShortCircuit :: "Rule \<Rightarrow> bool" where
  "isShortCircuit r = (rule_Mode r = ''short_circuit'')"

definition isAggregate :: "Rule \<Rightarrow> bool" where
  "isAggregate r = (rule_Mode r = ''aggregate'')"

definition resultIDs :: "Result option \<Rightarrow> string list" where
  "resultIDs res = (case res of None \<Rightarrow> [] | Some (rid, a) \<Rightarrow> [rid])"

text \<open>
  For rule sets that mix the modes. Among the matching rules \<open>ms\<close>, in declaration
  order, \<open>firstStopper seen ms\<close> is the first rule in mode \<open>short_circuit\<close> whose
  priority is above that of every matching rule before it (\<open>seen\<close> holds those already
  passed). \<open>selected ms\<close> is that rule when there is one, and otherwise the first rule
  whose priority no other exceeds.
\<close>

fun firstStopper :: "Rule list \<Rightarrow> Rule list \<Rightarrow> Rule option" where
  "firstStopper seen [] = None"
| "firstStopper seen (r # ms) =
     (if isShortCircuit r \<and> list_all (\<lambda>x. rule_Priority x < rule_Priority r) seen
      then Some r
      else firstStopper (seen @ [r]) ms)"

definition selected :: "Rule list \<Rightarrow> Rule option" where
  "selected ms = (case firstStopper [] ms of Some r \<Rightarrow> Some r | None \<Rightarrow> firstTop ms)"

text \<open>
  A library for concrete runs on ASCII strings: the ASCII versions of the case and
  white-space functions; no pattern matches and every decoder fails.
\<close>

definition lib0 :: lib where
  "lib0 = \<lparr>ToLower = asciiToLower, EqualFold = asciiEqualFold, TrimSpace = asciiTrimSpace,
           regexMatch = (\<lambda>s p. False), regexReplaceAll = (\<lambda>p s r. None),
           jsonUnmarshal = (\<lambda>s. None), jsonMarshal = (\<lambda>v. None), formatFloat = (\<lambda>x. []),
           base64Decode = (\<lambda>s. None), urlQuery = (\<lambda>u. None), urlSetQuery = (\<lambda>u q. None)\<rparr>"

definition matchAll :: Match where
  "matchAll = \<lparr>AllOf = [], AnyOf = [], NoneOf = []\<rparr>"

definition noAction :: Action where
  "noAction = \<lparr>act_Rewrite = None, act_Respond = None, act_Fail = None, act_Pause = None,
               DelayMS = 0, DropRate = 0\<rparr>"

definition mkRule :: "string \<Rightarrow> int \<Rightarrow> string \<Rightarrow> Match \<Rightarrow> Action \<Rightarrow> Rule" where
  "mkRule rid prio mode mt a =
     \<lparr>rule_ID = rid, rule_Priority = prio, rule_Mode = mode, rule_Match = mt, rule_Action = a\<rparr>"

definition urlCond :: "string \<Rightarrow> string \<Rightarrow> Condition" where
  "urlCond mode pattern =
     \<lparr>cond_Type = ''url'', cond_Mode = mode, cond_Pattern = pattern, cond_Values = [],
      cond_Key = [], cond_Op = [], cond_Value = [], cond_Pointer = []\<rparr>"

definition headerCond :: "string \<Rightarrow> string \<Rightarrow> string \<Rightarrow> Condition" where
  "headerCond key op' val =
     \<lparr>cond_Type = ''header'', cond_Mode = [], cond_Pattern = [], cond_Values = [],
      cond_Key = key, cond_Op = op', cond_Value = val, cond_Pointer = []\<rparr>"

definition allOfMatch :: "Condition list \<Rightarrow> Match" where
  "allOfMatch cs = \<lparr>AllOf = cs, AnyOf = [], NoneOf = []\<rparr>"

definition ctxA :: Ctx where
  "ctxA = \<lparr>ctx_URL = ''https://a.test/x.js'', ctx_Method = ''GET'', ctx_Headers = Map.empty,
           ctx_Query = Map.empty, ctx_Cookies = Map.empty, ctx_Body = [],
           ctx_ContentType = [], ctx_Stage = ''request''\<rparr>"

definition shortRules :: "Rule list" where
  "shortRules =
     [mkRule ''a'' 9 ''short_circuit'' (allOfMatch [urlCond ''prefix'' ''https://b.test'']) noAction,
      mkRule ''b'' 1 ''short_circuit'' matchAll noAction,
      mkRule ''c'' 5 ''short_circuit'' matchAll noAction]"

definition aggregateRules :: "Rule list" where
  "aggregateRules =
     [mkRule ''a'' 1 ''aggregate'' matchAll noAction,
      mkRule ''b'' 5 ''aggregate'' matchAll noAction,
      mkRule ''c'' 5 ''aggregate'' matchAll noAction]"

definition twoAggregateRules :: "Rule list" where
  "twoAggregateRules =
     [mkRule ''a'' 0 ''aggregate'' matchAll noAction,
      mkRule ''b'' 0 ''aggregate'' matchAll noAction]"

definition mixedRules :: "Rule list" where
  "mixedRules =
     [mkRule ''a'' 1 ''aggregate'' matchAll noAction,
      mkRule ''b'' 5 ''short_circuit'' matchAll noAction,
      mkRule ''c'' 9 ''aggregate'' matchAll noAction]"

definition lowShortRules :: "Rule list" where
  "lowShortRules =
     [mkRule ''a'' 1 ''aggregate'' matchAll noAction,
      mkRule ''b'' 0 ''short_circuit'' matchAll noAction,
      mkRule ''c'' 9 ''aggregate'' matchAll noAction]"

text \<open>
  The trace of terminating calls, and what it is for an event to have been answered
  once between two states. \<open>answer\<close> says the same of a list of calls.
\<close>

definition termCalls :: "St \<Rightarrow> Call list" where
  "termCalls s = filter isTerminating (calls s)"

definition answer :: "string \<Rightarrow> Call list \<Rightarrow> bool" where
  "answer rid cs = (case filter isTerminating cs of [c] \<Rightarrow> callID c = rid | _ \<Rightarrow> False)"

definition answered :: "string \<Rightarrow> St \<Rightarrow> St \<Rightarrow> bool" where
  "answered rid s s' =
     (\<exists>c. isTerminating c \<and> callID c = rid \<and> termCalls s' = termCalls s @ [c])"

text \<open>
  The events channel is open with room for \<open>n\<close> more values; the pending channel is
  \<open>nil\<close> or open; it is \<open>nil\<close> or open with room for one more; a queued task is
  taken by a worker and called.
\<close>

definition eventsRoom :: "nat \<Rightarrow> St \<Rightarrow> bool" where
  "eventsRoom n s =
     (case events s of
        None \<Rightarrow> False
      | Some ch \<Rightarrow> if closed ch then False else length (buf ch) + n \<le> cap ch)"

definition pendingOpen :: "St \<Rightarrow> bool" where
  "pendingOpen s =
     (case pending s of None \<Rightarrow> True | Some ch \<Rightarrow> if closed ch then False else True)"

definition pendingRoom :: "St \<Rightarrow> bool" where
  "pendingRoom s =
     (case pending s of
        None \<Rightarrow> True
      | Some ch \<Rightarrow> if closed ch then False else length (buf ch) < cap ch)"

definition taskRuns :: "Manager \<Rightarrow> Env \<Rightarrow> bool" where
  "taskRuns m E =
     (case pool m of
        NoPool \<Rightarrow> True
      | Unbounded \<Rightarrow> True
      | Bounded queueLen queueCap \<Rightarrow>
          if queueLen < queueCap then (if ctxDone E then False else True) else True)"

definition eventsOf :: "St \<Rightarrow> MEvent list" where
  "eventsOf s = (case events s of None \<Rightarrow> [] | Some ch \<Rightarrow> buf ch)"

text \<open>Properties of a procedure, used to go through \<open>handle\<close> one step at a time.\<close>

definition quiet :: "Proc \<Rightarrow> bool" where
  "quiet f = (\<forall>s. termCalls (snd (f s)) = termCalls s)"

definition once :: "string \<Rightarrow> Proc \<Rightarrow> bool" where
  "once rid f = (\<forall>s. fst (f s) = Returned \<longrightarrow> answered rid s (snd (f s)))"

definition atMost :: "string \<Rightarrow> Proc \<Rightarrow> bool" where
  "atMost rid f = (\<forall>s. termCalls (snd (f s)) = termCalls s \<or> answered rid s (snd (f s)))"

definition runs :: "nat \<Rightarrow> nat \<Rightarrow> Proc \<Rightarrow> bool" where
  "runs n k f =
     (\<forall>s. eventsRoom n s \<and> pendingOpen s \<longrightarrow>
          fst (f s) = Returned \<and> eventsRoom k (snd (f s)) \<and> pendingOpen (snd (f s)))"

text \<open>A pause with another type of default action.\<close>

definition withDefault :: "Pause \<Rightarrow> string \<Rightarrow> Pause" where
  "withDefault p t = p\<lparr>DefaultAction := (DefaultAction p)\<lparr>da_Type := t\<rparr>\<rparr>"

text \<open>The number a string of decimal digits denotes.\<close>

definition isDigit :: "char \<Rightarrow> bool" where
  "isDigit c = (case digitVal c of None \<Rightarrow> False | Some d \<Rightarrow> True)"

definition decimal :: "string \<Rightarrow> nat" where
  "decimal v = foldl (\<lambda>a c. a * 10 + (case digitVal c of None \<Rightarrow> 0 | Some d \<Rightarrow> d)) 0 v"

text \<open>
  The values of the headers of a given name, in the order of the header list: those
  whose name \<open>EqualFold\<close> equates with it, and those whose name \<open>ToLower\<close> maps to it.
  \<open>lastOr d xs\<close> is the last of \<open>xs\<close>, or \<open>d\<close> when there is none.
\<close>

definition headerValues :: "lib \<Rightarrow> string \<Rightarrow> (string \<times> string) list \<Rightarrow> string list" where
  "headerValues L name hdrs = map snd (filter (\<lambda>kv. EqualFold L (fst kv) name) hdrs)"

definition storedValues :: "lib \<Rightarrow> string \<Rightarrow> (string \<times> string) list \<Rightarrow> string list" where
  "storedValues L key hdrs = map snd (filter (\<lambda>kv. ToLower L (fst kv) = key) hdrs)"

definition lastOr :: "'a \<Rightarrow> 'a list \<Rightarrow> 'a" where
  "lastOr d xs = (if xs = [] then d else last xs)"

text \<open>Concrete managers, surroundings, events and states.\<close>

definition mgr0 :: Manager where
  "mgr0 = \<lparr>engine = None, bodySizeThreshold = 0, processTimeoutMS = 0, currentTarget = ''t1'',
           pool = NoPool\<rparr>"

definition mgrPool :: Manager where
  "mgrPool = mgr0\<lparr>pool := Bounded 0 2\<rparr>"

definition env0 :: Env where
  "env0 = \<lparr>randFloat = 0, elapsedNS = 0, approvalIn = None, bodyForMatch = None,
           bodyForRewrite = None, sharedPatch = None, ctxDone = False\<rparr>"

definition evReq :: PausedEvent where
  "evReq = \<lparr>RequestID = ''r1'', req_URL = ''https://a.test/'', req_Method = ''GET'',
            req_Headers = [(''Host'', ''a.test''), (''Accept'', ''*/*''),
                           (''Content-Type'', ''application/json'')],
            req_PostData = None, ResponseStatusCode = None, ResponseHeaders = []\<rparr>"

definition evResp :: "string \<Rightarrow> PausedEvent" where
  "evResp clen =
     \<lparr>RequestID = ''r2'', req_URL = ''https://a.test/'', req_Method = ''GET'',
      req_Headers = [], req_PostData = None, ResponseStatusCode = Some 200,
      ResponseHeaders = [(''Content-Type'', ''text/html''), (''Content-Length'', clen)]\<rparr>"

definition openChan :: "nat \<Rightarrow> 'a chan" where
  "openChan n = \<lparr>buf = [], cap = n, closed = False\<rparr>"

definition st0 :: St where
  "st0 = \<lparr>events = Some (openChan 8), pending = Some (openChan 8), approvals = {}, calls = []\<rparr>"

definition stFull :: St where
  "stFull = \<lparr>events = Some \<lparr>buf = [mkEvent ''intercepted'' None], cap = 1, closed = False\<rparr>,
             pending = Some (openChan 8), approvals = {}, calls = []\<rparr>"

definition stClosed :: St where
  "stClosed = \<lparr>events = Some \<lparr>buf = [], cap = 8, closed = True\<rparr>,
               pending = Some (openChan 8), approvals = {}, calls = []\<rparr>"

definition pauseOriginal :: Pause where
  "pauseOriginal =
     \<lparr>TimeoutMS = 1000,
      DefaultAction = \<lparr>da_Type = ''continue_original'', da_Status = 0, da_Reason = []\<rparr>\<rparr>"

definition pauseRule :: Rule where
  "pauseRule =
     mkRule ''p'' 0 ''short_circuit'' matchAll (noAction\<lparr>act_Pause := Some pauseOriginal\<rparr>)"

definition mgrPause :: Manager where
  "mgrPause = mgr0\<lparr>engine := Some [pauseRule]\<rparr>"

definition rwHeaders :: Rewrite where
  "rwHeaders = \<lparr>rw_URL = None, rw_Method = None,
                rw_Headers = Some [(''X-A'', Some ''1''), (''Host'', None)],
                rw_Query = None, rw_Cookies = None, rw_Body = None\<rparr>"

definition rwBody :: Rewrite where
  "rwBody = \<lparr>rw_URL = None, rw_Method = None, rw_Headers = None, rw_Query = None,
             rw_Cookies = None,
             rw_Body = Some \<lparr>Base64 = Some ''eA=='', TextRegex = None, JSONPatch = []\<rparr>\<rparr>"

definition addOp :: "string \<Rightarrow> JSONPatchOp" where
  "addOp path = \<lparr>patch_Op = ''add'', patch_Path = path, patch_From = [], patch_Value = JNum 9\<rparr>"

text \<open>
  A rule that fails every event whose body does not contain \<open>secret\<close>, and a manager
  with this rule alone.
\<close>

definition textCond :: "string \<Rightarrow> string \<Rightarrow> Condition" where
  "textCond op' val =
     \<lparr>cond_Type = ''text'', cond_Mode = [], cond_Pattern = [], cond_Values = [],
      cond_Key = [], cond_Op = op', cond_Value = val, cond_Pointer = []\<rparr>"

definition failAction :: Action where
  "failAction = noAction\<lparr>act_Fail := Some \<lparr>fail_Reason = ''blocked''\<rparr>\<rparr>"

definition noneOfRule :: Rule where
  "noneOfRule =
     mkRule ''n'' 0 ''short_circuit''
       \<lparr>AllOf = [], AnyOf = [], NoneOf = [textCond ''contains'' ''secret'']\<rparr> failAction"

definition mgrNoneOf :: Manager where
  "mgrNoneOf = mgr0\<lparr>engine := Some [noneOfRule]\<rparr>"

text \<open>A manager whose one rule asks for \<open>secret\<close> in the body.\<close>

definition allOfRule :: Rule where
  "allOfRule =
     mkRule ''t'' 0 ''short_circuit'' (allOfMatch [textCond ''contains'' ''secret'']) failAction"

definition mgrAllOf :: Manager where
  "mgrAllOf = mgr0\<lparr>engine := Some [allOfRule]\<rparr>"

definition pauseFulfill :: Pause where
  "pauseFulfill =
     \<lparr>TimeoutMS = 1000,
      DefaultAction = \<lparr>da_Type = ''fulfill'', da_Status = 204, da_Reason = []\<rparr>\<rparr>"

definition pauseFail :: Pause where
  "pauseFail =
     \<lparr>TimeoutMS = 1000,
      DefaultAction = \<lparr>da_Type = ''fail'', da_Status = 0, da_Reason = ''blocked''\<rparr>\<rparr>"

text \<open>A library that decodes and encodes the few JSON texts of the example below.\<close>

definition libJSON :: lib where
  "libJSON =
     lib0\<lparr>jsonUnmarshal := (\<lambda>s. if s = ''[1,2]'' then Some (JArr [JNum 1, JNum 2]) else None),
          jsonMarshal := (\<lambda>v. if v = JArr [JNum 9, JNum 2] then Some ''[9,2]''
                               else if v = JArr [JNum 9, JNum 1, JNum 2] then Some ''[9,1,2]''
                               else None)\<rparr>"

section \<open>Lemmas on strings and on the evaluation loop\<close>

lemma HasPrefix_star: "HasPrefix p ''*'' = (p \<noteq> [] \<and> hd p = CHR ''*'')"
  by (cases p) (auto simp: HasPrefix_def)

lemma HasSuffix_star: "HasSuffix p ''*'' = (p \<noteq> [] \<and> last p = CHR ''*'')"
  by (cases p rule: rev_cases) (auto simp: HasSuffix_def suffix_def)

lemma TrimPrefix_star: "HasPrefix p ''*'' \<Longrightarrow> TrimPrefix p ''*'' = tl p"
  by (cases p) (auto simp: TrimPrefix_def)

lemma TrimSuffix_star: "HasSuffix p ''*'' \<Longrightarrow> TrimSuffix p ''*'' = butlast p"
  by (auto simp: TrimSuffix_def butlast_conv_take)

lemma glob_unfold:
  "glob s p =
     (p = ''*'' \<or> (HasPrefix p ''*'' \<and> HasSuffix s (tl p))
      \<or> (HasSuffix p ''*'' \<and> HasPrefix s (butlast p)) \<or> s = p)"
  by (auto simp: glob_def TrimPrefix_star TrimSuffix_star)

lemma glob_leading_only:
  assumes "HasPrefix p ''*''" and "\<not> HasSuffix p ''*''"
  shows "glob s p = HasSuffix s (tl p)"
proof -
  from assms obtain rest where p: "p = CHR ''*'' # rest"
    by (cases p) (auto simp: HasPrefix_def)
  have "HasSuffix p (tl p)" by (simp add: p HasSuffix_def suffix_Cons)
  moreover have "HasSuffix s []" by (simp add: HasSuffix_def)
  ultimately show ?thesis using assms by (auto simp: glob_unfold)
qed

lemma glob_trailing_only:
  assumes "HasSuffix p ''*''" and "\<not> HasPrefix p ''*''"
  shows "glob s p = HasPrefix s (butlast p)"
proof -
  from assms(1) have "p \<noteq> []" by (auto simp: HasSuffix_star)
  then have "HasPrefix p (butlast p)"
    by (metis HasPrefix_def append_butlast_last_id prefixI)
  moreover have "HasPrefix s []" by (simp add: HasPrefix_def)
  ultimately show ?thesis using assms by (auto simp: glob_unfold)
qed

lemma glob_both_ends:
  assumes "HasPrefix p ''*''" and "HasSuffix p ''*''" and "p \<noteq> ''*''"
  shows "glob s p = (HasSuffix s (tl p) \<or> HasPrefix s (butlast p))"
proof -
  from assms(1) obtain rest where p: "p = CHR ''*'' # rest"
    by (cases p) (auto simp: HasPrefix_def)
  have "HasSuffix p (tl p)" by (simp add: p HasSuffix_def suffix_Cons)
  with assms show ?thesis by (auto simp: glob_unfold)
qed

lemma find_cong_set: "(\<And>x. x \<in> set xs \<Longrightarrow> P x = Q x) \<Longrightarrow> find P xs = find Q xs"
  by (induction xs) auto

lemma evalLoop_short:
  "list_all isShortCircuit rs \<Longrightarrow> evalLoop L ctx None rs = firstMatch L ctx rs"
  by (induction rs) (simp_all add: firstMatch_def matches_def replaces_def isShortCircuit_def)

lemma firstTop_drop_low:
  assumes "rule_Priority r \<le> rule_Priority c"
  shows "firstTop (c # r # ms) = firstTop (c # ms)"
proof (cases "topPriority (c # ms) c")
  case True
  with assms show ?thesis by (simp add: firstTop_def topPriority_def)
next
  case False
  then obtain m where m: "m \<in> set ms" "rule_Priority c < rule_Priority m"
    by (auto simp: topPriority_def list_all_iff not_le)
  have nc: "\<not> topPriority (c # r # ms) c" using False by (simp add: topPriority_def)
  have "\<not> rule_Priority m \<le> rule_Priority r" using m assms by simp
  with m(1) have nr: "\<not> topPriority (c # r # ms) r"
    unfolding topPriority_def list_all_iff by (meson list.set_intros)
  have "find (topPriority (c # r # ms)) ms = find (topPriority (c # ms)) ms"
    using assms by (intro find_cong_set) (auto simp: topPriority_def)
  with nc nr False show ?thesis by (simp add: firstTop_def)
qed

lemma firstTop_drop_head:
  assumes "rule_Priority c < rule_Priority r"
  shows "firstTop (c # r # ms) = firstTop (r # ms)"
proof -
  have nc: "\<not> topPriority (c # r # ms) c" using assms by (simp add: topPriority_def)
  have "find (topPriority (c # r # ms)) (r # ms) = find (topPriority (r # ms)) (r # ms)"
    using assms by (intro find_cong_set) (auto simp: topPriority_def)
  with nc show ?thesis by (simp add: firstTop_def)
qed

lemma evalLoop_chosen_no_short:
  "list_ex isShortCircuit rs = False \<Longrightarrow>
   evalLoop L ctx (Some c) rs = firstTop (c # matching L ctx rs)"
proof (induction rs arbitrary: c)
  case Nil
  show ?case by (simp add: matching_def firstTop_def topPriority_def)
next
  case (Cons r rs)
  then have IH: "\<And>c. evalLoop L ctx (Some c) rs = firstTop (c # matching L ctx rs)" by simp
  from Cons.prems have agg: "rule_Mode r \<noteq> ''short_circuit''"
    by (simp add: isShortCircuit_def)
  show ?case
  proof (cases "matches L ctx r")
    case False
    then show ?thesis using IH by (simp add: matching_def matches_def)
  next
    case m: True
    show ?thesis
    proof (cases "rule_Priority c < rule_Priority r")
      case True
      with m agg IH firstTop_drop_head[OF True]
      show ?thesis by (simp add: matching_def matches_def replaces_def)
    next
      case False
      then have le: "rule_Priority r \<le> rule_Priority c" by simp
      with m False IH firstTop_drop_low[OF le]
      show ?thesis by (simp add: matching_def matches_def replaces_def)
    qed
  qed
qed

lemma evalLoop_no_short:
  "list_ex isShortCircuit rs = False \<Longrightarrow>
   evalLoop L ctx None rs = firstTop (matching L ctx rs)"
proof (induction rs)
  case Nil
  show ?case by (simp add: matching_def firstTop_def)
next
  case (Cons r rs)
  show ?case
  proof (cases "matches L ctx r")
    case False
    with Cons show ?thesis by (simp add: matching_def matches_def)
  next
    case True
    from Cons.prems have rest: "list_ex isShortCircuit rs = False" by simp
    from Cons.prems have "rule_Mode r \<noteq> ''short_circuit''" by (simp add: isShortCircuit_def)
    with True evalLoop_chosen_no_short [OF rest, of L ctx r]
    show ?thesis by (simp add: matching_def matches_def replaces_def)
  qed
qed

text \<open>The loop on a rule set of any mix of modes.\<close>

lemma find_filter_head: "find P xs = Some r \<Longrightarrow> \<exists>ms. filter P xs = r # ms"
  by (induction xs) (auto split: if_splits)

lemma evalLoop_chosen:
  assumes "c \<in> set seen" and "\<forall>x\<in>set seen. rule_Priority x \<le> rule_Priority c"
  shows "evalLoop L ctx (Some c) rs =
           (case firstStopper seen (matching L ctx rs) of
              Some r \<Rightarrow> Some r
            | None \<Rightarrow> firstTop (c # matching L ctx rs))"
  using assms
proof (induction rs arbitrary: c seen)
  case Nil
  show ?case by (simp add: matching_def firstTop_def topPriority_def)
next
  case (Cons r rs)
  show ?case
  proof (cases "matches L ctx r")
    case False
    with Cons.IH [OF Cons.prems] show ?thesis
      by (simp add: matching_def matches_def cong: option.case_cong)
  next
    case m: True
    show ?thesis
    proof (cases "rule_Priority c < rule_Priority r")
      case True
      with Cons.prems have above: "list_all (\<lambda>x. rule_Priority x < rule_Priority r) seen"
        by (auto simp: list_all_iff)
      show ?thesis
      proof (cases "isShortCircuit r")
        case s: True
        with m True above show ?thesis
          by (simp add: matching_def matches_def replaces_def isShortCircuit_def)
      next
        case s: False
        have "r \<in> set (seen @ [r])" by simp
        moreover have "\<forall>x\<in>set (seen @ [r]). rule_Priority x \<le> rule_Priority r"
          using above by (auto simp: list_all_iff)
        ultimately have "evalLoop L ctx (Some r) rs =
           (case firstStopper (seen @ [r]) (matching L ctx rs) of
              Some r' \<Rightarrow> Some r'
            | None \<Rightarrow> firstTop (r # matching L ctx rs))"
          by (rule Cons.IH)
        with m True s firstTop_drop_head [OF True] show ?thesis
          by (simp add: matching_def matches_def replaces_def isShortCircuit_def
              cong: option.case_cong)
      qed
    next
      case False
      then have le: "rule_Priority r \<le> rule_Priority c" by simp
      from Cons.prems(1) False
      have notabove: "\<not> list_all (\<lambda>x. rule_Priority x < rule_Priority r) seen"
        by (auto simp: list_all_iff)
      have "c \<in> set (seen @ [r])" using Cons.prems(1) by simp
      moreover have "\<forall>x\<in>set (seen @ [r]). rule_Priority x \<le> rule_Priority c"
        using Cons.prems(2) le by auto
      ultimately have "evalLoop L ctx (Some c) rs =
           (case firstStopper (seen @ [r]) (matching L ctx rs) of
              Some r' \<Rightarrow> Some r'
            | None \<Rightarrow> firstTop (c # matching L ctx rs))"
        by (rule Cons.IH)
      with m False notabove firstTop_drop_low [OF le] show ?thesis
        by (simp add: matching_def matches_def replaces_def cong: option.case_cong)
    qed
  qed
qed

lemma evalLoop_selected: "evalLoop L ctx None rs = selected (matching L ctx rs)"
proof (induction rs)
  case Nil
  show ?case by (simp add: matching_def selected_def firstTop_def)
next
  case (Cons r rs)
  show ?case
  proof (cases "matches L ctx r")
    case False
    with Cons show ?thesis by (simp add: matching_def matches_def)
  next
    case True
    have "evalLoop L ctx (Some r) rs =
           (case firstStopper [r] (matching L ctx rs) of
              Some r' \<Rightarrow> Some r'
            | None \<Rightarrow> firstTop (r # matching L ctx rs))"
      by (rule evalLoop_chosen) simp_all
    with True show ?thesis
      by (simp add: matching_def matches_def replaces_def selected_def isShortCircuit_def
          cong: option.case_cong)
  qed
qed

lemma Eval_selected: "Eval L rs ctx = map_option resultOf (selected (matching L ctx rs))"
  by (cases rs)
     (simp_all add: Eval_def evalLoop_selected matching_def selected_def firstTop_def
        del: evalLoop.simps)

lemma selected_first_short:
  "firstMatch L ctx rs = Some r \<Longrightarrow> isShortCircuit r \<Longrightarrow> selected (matching L ctx rs) = Some r"
  using find_filter_head [of "matches L ctx" rs r]
  by (auto simp: firstMatch_def matching_def selected_def)

section \<open>Lemmas on the calls a procedure issues\<close>

lemma answerD:
  "answer rid cs \<Longrightarrow> \<exists>c. isTerminating c \<and> callID c = rid \<and> filter isTerminating cs = [c]"
  unfolding answer_def
  by (cases "filter isTerminating cs"; cases "tl (filter isTerminating cs)")
     (auto dest: filter_eq_ConsD)

lemma answer_applyContinue: "answer (RequestID ev) (applyContinue ev stage)"
  by (simp add: answer_def applyContinue_def)

lemma answer_applyFail: "answer (RequestID ev) (applyFail ev f)"
  by (simp add: answer_def applyFail_def)

lemma answer_applyRespond: "answer (RequestID ev) (applyRespond ev r stage)"
  by (simp add: answer_def applyRespond_def continueResponseWithModifications_def
      fulfillRequest_def)

lemma answer_applyResponseRewrite: "answer (RequestID ev) (applyResponseRewrite L m E ev rw)"
  by (simp add: answer_def applyResponseRewrite_def split: option.splits prod.splits)

lemma answer_applyRequestRewrite: "answer (RequestID ev) (applyRequestRewrite L E ev rw)"
  by (simp add: answer_def applyRequestRewrite_def)

lemma answer_applyRewrite: "answer (RequestID ev) (applyRewrite L m E ev rw stage)"
  by (simp add: applyRewrite_def answer_applyResponseRewrite answer_applyRequestRewrite)

lemma answer_applyPauseDefaultAction:
  "answer (RequestID ev) (applyPauseDefaultAction ev p stage)"
  by (simp add: applyPauseDefaultAction_def answer_applyRespond answer_applyFail
      answer_applyContinue)

lemma answer_applyApprovalResult:
  "answer (RequestID ev) (applyApprovalResult L m E ev mut p stage)"
  by (simp add: applyApprovalResult_def answer_applyRewrite answer_applyContinue
      answer_applyPauseDefaultAction split: option.splits)

lemma decide_calls_quiet: "filter isTerminating (snd (decide L m E ev stage)) = []"
  by (simp add: decide_def buildRuleContext_def Let_def split: option.splits prod.splits)

lemma andThen_Returned:
  "fst (andThen f g s) = Returned \<Longrightarrow> fst (f s) = Returned \<and> andThen f g s = g (snd (f s))"
  by (cases "f s"; cases "fst (f s)") (auto simp: andThen_def)

lemma andThen_cases:
  "andThen f g s = g (snd (f s)) \<and> fst (f s) = Returned
   \<or> andThen f g s = f s \<and> fst (f s) \<noteq> Returned"
  by (cases "f s"; cases "fst (f s)") (auto simp: andThen_def)

lemma answered_cong: "termCalls s1 = termCalls s \<Longrightarrow> answered rid s1 s' = answered rid s s'"
  by (simp add: answered_def)

lemma quiet_sendBlocking: "quiet (sendBlocking e)"
  by (simp add: quiet_def sendBlocking_def termCalls_def split: option.splits)

lemma quiet_unregister: "quiet (unregisterApproval rid)"
  by (simp add: quiet_def unregisterApproval_def termCalls_def)

lemma quiet_ret: "quiet ret"
  by (simp add: quiet_def ret_def)

lemma quiet_perform: "filter isTerminating cs = [] \<Longrightarrow> quiet (perform cs)"
  by (simp add: quiet_def perform_def termCalls_def)

lemma quiet_andThen: "quiet f \<Longrightarrow> quiet g \<Longrightarrow> quiet (andThen f g)"
  unfolding quiet_def using andThen_cases by metis

lemma quiet_atMost: "quiet f \<Longrightarrow> atMost rid f"
  by (simp add: quiet_def atMost_def)

lemma once_perform: "answer rid cs \<Longrightarrow> once rid (perform cs)"
  by (auto simp: once_def perform_def termCalls_def answered_def dest: answerD)

lemma atMost_perform: "answer rid cs \<Longrightarrow> atMost rid (perform cs)"
  by (auto simp: atMost_def perform_def termCalls_def answered_def dest: answerD)

lemma once_andThen1: "once rid f \<Longrightarrow> quiet g \<Longrightarrow> once rid (andThen f g)"
  unfolding once_def quiet_def answered_def using andThen_Returned by metis

lemma once_andThen2: "quiet f \<Longrightarrow> once rid g \<Longrightarrow> once rid (andThen f g)"
  unfolding once_def quiet_def answered_def using andThen_Returned by metis

lemma atMost_andThen1: "atMost rid f \<Longrightarrow> quiet g \<Longrightarrow> atMost rid (andThen f g)"
  unfolding atMost_def quiet_def answered_def using andThen_cases by metis

lemma atMost_andThen2: "quiet f \<Longrightarrow> atMost rid g \<Longrightarrow> atMost rid (andThen f g)"
  unfolding atMost_def quiet_def answered_def using andThen_cases by metis

lemma once_at:
  "once rid f \<Longrightarrow> termCalls s1 = termCalls s \<Longrightarrow> fst (f s1) = Returned \<Longrightarrow>
   answered rid s (snd (f s1))"
  unfolding once_def by (metis answered_cong)

lemma atMost_at:
  "atMost rid f \<Longrightarrow> termCalls s1 = termCalls s \<Longrightarrow>
   termCalls (snd (f s1)) = termCalls s \<or> answered rid s (snd (f s1))"
  unfolding atMost_def by (metis answered_cong)

text \<open>\<open>applyPause\<close>, with \<open>registerApproval\<close> and \<open>sendPendingItem\<close> unfolded.\<close>

lemma applyPause_unfold:
  "applyPause L m E ev p stage ruleID s =
     (case pending s of
        None \<Rightarrow>
          andThen (perform (applyApprovalResult L m E ev (approvalIn E) p stage))
            (unregisterApproval (RequestID ev))
            (s\<lparr>approvals := insert (RequestID ev) (approvals s)\<rparr>)
      | Some ch \<Rightarrow>
          if closed ch then (Panicked, s\<lparr>approvals := insert (RequestID ev) (approvals s)\<rparr>)
          else if length (buf ch) < cap ch
          then andThen (perform (applyApprovalResult L m E ev (approvalIn E) p stage))
                 (unregisterApproval (RequestID ev))
                 (s\<lparr>approvals := insert (RequestID ev) (approvals s),
                    pending := Some (ch\<lparr>buf := buf ch @
                     [\<lparr>pi_ID = RequestID ev, pi_Stage = stage, pi_URL = req_URL ev,
                       pi_Method = req_Method ev, pi_Target = currentTarget m,
                       pi_Rule = ruleID\<rparr>]\<rparr>)\<rparr>)
          else handlePauseOverflow (RequestID ev) ev p stage
                 (s\<lparr>approvals := insert (RequestID ev) (approvals s)\<rparr>))"
proof -
  have "\<And>(f :: Proc) s g. (case (case f s of (st, s') \<Rightarrow> (st, False, s')) of
                 (Returned, True, s') \<Rightarrow> g s' | (st, queued, s') \<Rightarrow> (st, s')) = f s"
    by (auto split: prod.splits status.splits)
  then show ?thesis
    by (simp add: applyPause_def sendPendingItem_def registerApproval_def waitForApproval_def
        split: option.splits)
qed

lemma once_approved:
  "once (RequestID ev)
     (andThen (perform (applyApprovalResult L m E ev mut p stage))
        (unregisterApproval (RequestID ev)))"
  by (intro once_andThen1 once_perform answer_applyApprovalResult quiet_unregister)

lemma atMost_approved:
  "atMost (RequestID ev)
     (andThen (perform (applyApprovalResult L m E ev mut p stage))
        (unregisterApproval (RequestID ev)))"
  by (intro atMost_andThen1 atMost_perform answer_applyApprovalResult quiet_unregister)

lemma once_overflow: "once (RequestID ev) (handlePauseOverflow rid ev p stage)"
  unfolding handlePauseOverflow_def
  by (intro once_andThen1 once_perform answer_applyPauseDefaultAction quiet_andThen
      quiet_sendBlocking quiet_unregister)

lemma atMost_overflow: "atMost (RequestID ev) (handlePauseOverflow rid ev p stage)"
  unfolding handlePauseOverflow_def
  by (intro atMost_andThen1 atMost_perform answer_applyPauseDefaultAction quiet_andThen
      quiet_sendBlocking quiet_unregister)

lemma once_applyPause: "once (RequestID ev) (applyPause L m E ev p stage ruleID)"
  unfolding once_def
proof (intro allI impI)
  fix s :: St
  let ?s1 = "s\<lparr>approvals := insert (RequestID ev) (approvals s)\<rparr>"
  assume r: "fst (applyPause L m E ev p stage ruleID s) = Returned"
  have t1: "\<And>x. termCalls (?s1\<lparr>pending := x\<rparr>) = termCalls s" "termCalls ?s1 = termCalls s"
    by (simp_all add: termCalls_def)
  note A = once_at [OF once_approved [of ev L m E "approvalIn E" p stage]]
  note B = once_at [OF once_overflow [of ev "RequestID ev" p stage]]
  show "answered (RequestID ev) s (snd (applyPause L m E ev p stage ruleID s))"
  proof (cases "pending s")
    case None
    with r A [OF t1(2)] show ?thesis by (simp add: applyPause_unfold)
  next
    case (Some ch)
    with r A [OF t1(1)] B [OF t1(2)] show ?thesis
      by (simp add: applyPause_unfold split: if_splits)
  qed
qed

lemma atMost_applyPause: "atMost (RequestID ev) (applyPause L m E ev p stage ruleID)"
  unfolding atMost_def
proof
  fix s :: St
  let ?s1 = "s\<lparr>approvals := insert (RequestID ev) (approvals s)\<rparr>"
  have t1: "\<And>x. termCalls (?s1\<lparr>pending := x\<rparr>) = termCalls s" "termCalls ?s1 = termCalls s"
    by (simp_all add: termCalls_def)
  note A = atMost_at [OF atMost_approved [of ev L m E "approvalIn E" p stage]]
  note B = atMost_at [OF atMost_overflow [of ev "RequestID ev" p stage]]
  show "termCalls (snd (applyPause L m E ev p stage ruleID s)) = termCalls s
        \<or> answered (RequestID ev) s (snd (applyPause L m E ev p stage ruleID s))"
  proof (cases "pending s")
    case None
    with A [OF t1(2)] show ?thesis by (simp add: applyPause_unfold)
  next
    case (Some ch)
    with A [OF t1(1)] B [OF t1(2)] t1(2) show ?thesis
      by (simp add: applyPause_unfold split: if_splits)
  qed
qed

lemma once_runAction: "once (RequestID ev) (runAction L m E ev stg rid a)"
  unfolding runAction_def
  by (auto intro!: once_andThen1 once_perform quiet_sendBlocking once_applyPause
      answer_applyContinue answer_applyFail answer_applyRespond answer_applyRewrite
      split: option.splits)

lemma atMost_runAction: "atMost (RequestID ev) (runAction L m E ev stg rid a)"
  unfolding runAction_def
  by (auto intro!: atMost_andThen1 atMost_perform quiet_sendBlocking atMost_applyPause
      answer_applyContinue answer_applyFail answer_applyRespond answer_applyRewrite
      split: option.splits)

lemma once_handle: "once (RequestID ev) (handle L m E ev)"
  unfolding handle_def
  using decide_calls_quiet [of L m E ev "stageOf ev"]
  by (auto intro!: once_andThen2 quiet_sendBlocking quiet_perform once_perform once_runAction
      answer_applyContinue split: option.splits prod.splits)

lemma atMost_handle: "atMost (RequestID ev) (handle L m E ev)"
  unfolding handle_def
  using decide_calls_quiet [of L m E ev "stageOf ev"]
  by (auto intro!: atMost_andThen2 quiet_sendBlocking quiet_perform atMost_perform
      atMost_runAction answer_applyContinue split: option.splits prod.splits)

lemma once_degrade: "once (RequestID ev) (degradeAndContinue ev)"
  unfolding degradeAndContinue_def
  by (intro once_andThen1 once_perform quiet_sendBlocking) (simp add: answer_def)

lemma atMost_degrade: "atMost (RequestID ev) (degradeAndContinue ev)"
  unfolding degradeAndContinue_def
  by (intro atMost_andThen1 atMost_perform quiet_sendBlocking) (simp add: answer_def)

lemma once_dispatch: "taskRuns m E \<Longrightarrow> once (RequestID ev) (dispatchPaused L m E ev)"
  by (auto simp: dispatchPaused_def taskRuns_def worker_def once_handle once_degrade
      split: PoolState.splits if_splits)

lemma atMost_dispatch: "atMost (RequestID ev) (dispatchPaused L m E ev)"
  by (auto simp: dispatchPaused_def worker_def atMost_handle atMost_degrade quiet_atMost
      quiet_ret split: PoolState.splits)

section \<open>Lemmas on running to the end\<close>

lemma eventsRoom_Suc: "eventsRoom (Suc n) s \<Longrightarrow> eventsRoom n s"
  by (auto simp: eventsRoom_def split: option.splits if_splits)

lemma runs_sendBlocking: "runs (Suc k) k (sendBlocking e)"
  by (auto simp: runs_def sendBlocking_def eventsRoom_def pendingOpen_def split: option.splits)

lemma runs_perform: "runs k k (perform cs)"
  by (simp add: runs_def perform_def eventsRoom_def pendingOpen_def)

lemma runs_unregister: "runs k k (unregisterApproval rid)"
  by (simp add: runs_def unregisterApproval_def eventsRoom_def pendingOpen_def)

lemma runs_ret: "runs k k ret"
  by (simp add: runs_def ret_def)

lemma runs_andThen: "runs n k f \<Longrightarrow> runs k j g \<Longrightarrow> runs n j (andThen f g)"
  unfolding runs_def using andThen_cases by metis

lemma runs_post: "runs n (Suc k) f \<Longrightarrow> runs n k f"
  unfolding runs_def using eventsRoom_Suc by blast

lemma runs_pre: "runs n k f \<Longrightarrow> runs (Suc n) k f"
  unfolding runs_def using eventsRoom_Suc by blast

lemma runs_then_send: "runs (Suc k) k (andThen (perform cs) (sendBlocking e))"
  by (intro runs_andThen [OF runs_perform] runs_sendBlocking)

lemma runs_approved: "runs k k (andThen (perform cs) (unregisterApproval rid))"
  by (intro runs_andThen [OF runs_perform] runs_unregister)

lemma runs_overflow: "runs (Suc k) k (handlePauseOverflow rid ev p stage)"
  unfolding handlePauseOverflow_def
  by (intro runs_andThen [OF runs_perform] runs_andThen [OF runs_sendBlocking] runs_unregister)

lemma runs_at:
  "runs n k f \<Longrightarrow> eventsRoom n s \<Longrightarrow> pendingOpen s \<Longrightarrow>
   fst (f s) = Returned \<and> eventsRoom k (snd (f s)) \<and> pendingOpen (snd (f s))"
  by (simp add: runs_def)

lemma runs_applyPause: "runs (Suc k) k (applyPause L m E ev p stage ruleID)"
  unfolding runs_def
proof (intro allI impI)
  fix s :: St
  let ?s1 = "s\<lparr>approvals := insert (RequestID ev) (approvals s)\<rparr>"
  let ?f = "applyPause L m E ev p stage ruleID"
  assume a: "eventsRoom (Suc k) s \<and> pendingOpen s"
  then have e1: "eventsRoom (Suc k) ?s1" "pendingOpen ?s1"
    by (simp_all add: eventsRoom_def pendingOpen_def)
  note A = runs_at [OF runs_post [OF runs_approved]]
  note B = runs_at [OF runs_overflow]
  show "fst (?f s) = Returned \<and> eventsRoom k (snd (?f s)) \<and> pendingOpen (snd (?f s))"
  proof (cases "pending s")
    case None
    with A [OF e1] show ?thesis by (simp add: applyPause_unfold)
  next
    case (Some ch)
    with a have op: "\<not> closed ch" by (auto simp: pendingOpen_def split: if_splits)
    have e2: "\<And>x. eventsRoom (Suc k) (?s1\<lparr>pending := Some (ch\<lparr>buf := x\<rparr>)\<rparr>)"
      "\<And>x. pendingOpen (?s1\<lparr>pending := Some (ch\<lparr>buf := x\<rparr>)\<rparr>)"
      using a op by (simp_all add: eventsRoom_def pendingOpen_def)
    from Some op A [OF e2] B [OF e1] show ?thesis
      by (simp add: applyPause_unfold)
  qed
qed

lemma runs_runAction: "runs (Suc k) k (runAction L m E ev stg rid a)"
  unfolding runAction_def
  by (auto intro!: runs_then_send runs_applyPause runs_post [OF runs_perform]
      split: option.splits)

lemma runs_handle: "runs (Suc (Suc k)) k (handle L m E ev)"
  unfolding handle_def
  by (auto intro!: runs_andThen [OF runs_sendBlocking] runs_andThen [OF runs_perform]
      runs_runAction runs_post [OF runs_perform] split: option.splits prod.splits)

lemma runs_dispatch: "runs (Suc (Suc k)) k (dispatchPaused L m E ev)"
  by (auto simp: dispatchPaused_def worker_def degradeAndContinue_def
      intro!: runs_handle runs_pre [OF runs_then_send] runs_post [OF runs_post [OF runs_ret]]
      split: PoolState.splits)

section \<open>Lemmas on the pause default action, the body gate and concrete runs\<close>

lemma default_mutated_original:
  "applyPauseDefaultAction ev (withDefault p ''continue_mutated'') stage
     = applyPauseDefaultAction ev (withDefault p ''continue_original'') stage"
  by (simp add: applyPauseDefaultAction_def withDefault_def)

lemma approval_mutated_original:
  "applyApprovalResult L m E ev mut (withDefault p ''continue_mutated'') stage
     = applyApprovalResult L m E ev mut (withDefault p ''continue_original'') stage"
  by (simp add: applyApprovalResult_def default_mutated_original split: option.splits)

lemma overflow_mutated_original:
  "handlePauseOverflow rid ev (withDefault p ''continue_mutated'') stage
     = handlePauseOverflow rid ev (withDefault p ''continue_original'') stage"
  by (simp add: handlePauseOverflow_def default_mutated_original)

text \<open>The gate, the readers of the content type and length, and the two paths.\<close>

lemma lib0_strings:
  "ToLower lib0 = asciiToLower" "EqualFold lib0 = asciiEqualFold"
  "TrimSpace lib0 = asciiTrimSpace"
  by (simp_all add: lib0_def)

lemma shouldGetBody_iff:
  "shouldGetBody L ctype clen thr =
     ((HasPrefix (ToLower L ctype) ''text/'' \<or> HasPrefix (ToLower L ctype) ''application/json'')
      \<and> (0 < sint clen \<longrightarrow> sint clen \<le> sint (effectiveThreshold thr)))"
  by (auto simp: shouldGetBody_def)

lemma effectiveThreshold_sint:
  "sint (effectiveThreshold thr) = (if sint thr \<le> 0 then 4194304 else sint thr)"
  by (simp add: effectiveThreshold_def)

lemma parseInt64Loop_of_nat:
  "list_all isDigit cs \<Longrightarrow>
   parseInt64Loop (of_nat k) cs
     = Some (of_nat (foldl (\<lambda>a c. a * 10 + (case digitVal c of None \<Rightarrow> 0 | Some d \<Rightarrow> d)) k cs))"
proof (induction cs arbitrary: k)
  case Nil
  show ?case by simp
next
  case (Cons c cs)
  then obtain d where d: "digitVal c = Some d" by (auto simp: isDigit_def split: option.splits)
  have "(of_nat k :: 64 word) * 10 + of_nat d = of_nat (k * 10 + d)" by simp
  with Cons d show ?case by (simp del: of_nat_add of_nat_mult)
qed

lemma parseInt64Loop_not_digits:
  "\<not> list_all isDigit cs \<Longrightarrow> parseInt64Loop n cs = None"
  by (induction cs arbitrary: n) (auto simp: isDigit_def split: option.splits)

lemma parseInt64_decimal:
  "parseInt64 v = (if list_all isDigit v then Some (of_nat (decimal v)) else None)"
  using parseInt64Loop_of_nat [of v 0] parseInt64Loop_not_digits [of v 0]
  by (simp add: parseInt64_def decimal_def)

lemma sint_small:
  assumes "n < 2 ^ 63"
  shows "sint (of_nat n :: 64 word) = int n"
proof -
  from assms have "int n < 2 ^ 63" by (metis of_nat_less_iff of_nat_numeral of_nat_power)
  moreover have "- (2 ^ 63) \<le> int n"
  proof -
    have "- (2 ^ 63) \<le> (0::int)" by simp
    also have "0 \<le> int n" by simp
    finally show ?thesis .
  qed
  ultimately have "signed_take_bit 63 (int n) = int n"
    by (rule signed_take_bit_int_eq_self [rotated])
  then show ?thesis by (simp add: signed_of_nat)
qed

lemma headerValues_snoc:
  "headerValues L name (hdrs @ [kv])
     = headerValues L name hdrs @ (if EqualFold L (fst kv) name then [snd kv] else [])"
  by (simp add: headerValues_def)

lemma storedValues_snoc:
  "storedValues L key (hdrs @ [kv])
     = storedValues L key hdrs @ (if ToLower L (fst kv) = key then [snd kv] else [])"
  by (simp add: storedValues_def)

lemma metadata_fold:
  "foldl (\<lambda>acc kv.
              (if EqualFold L (fst kv) ''content-type'' then snd kv else fst acc,
               if EqualFold L (fst kv) ''content-length''
               then (case parseInt64 (snd kv) of None \<Rightarrow> snd acc | Some n \<Rightarrow> n)
               else snd acc))
           ([], 0) hdrs
     = (lastOr [] (headerValues L ''content-type'' hdrs),
        lastOr 0 (List.map_filter parseInt64 (headerValues L ''content-length'' hdrs)))"
proof (induction hdrs rule: rev_induct)
  case Nil
  show ?case by (simp add: headerValues_def lastOr_def List.map_filter_simps)
next
  case (snoc kv hdrs)
  then show ?case
    by (simp add: headerValues_snoc lastOr_def List.map_filter_def split: option.splits)
qed

lemma extractResponseMetadata_last:
  "extractResponseMetadata L ev
     = (lastOr [] (headerValues L ''content-type'' (ResponseHeaders ev)),
        lastOr 0 (List.map_filter parseInt64
                    (headerValues L ''content-length'' (ResponseHeaders ev))))"
  unfolding extractResponseMetadata_def by (rule metadata_fold)

lemma lastContentType_last:
  "lastContentType L hdrs = lastOr [] (headerValues L ''content-type'' hdrs)"
  unfolding lastContentType_def
  by (induction hdrs rule: rev_induct) (simp_all add: headerValues_snoc lastOr_def headerValues_def)

lemma lowerKeys_last:
  "lowerKeys L hdrs key
     = (if storedValues L key hdrs = [] then None else Some (last (storedValues L key hdrs)))"
  unfolding lowerKeys_def
  by (induction hdrs rule: rev_induct) (simp_all add: storedValues_snoc storedValues_def)

lemma contentLength_stored:
  "contentLengthOf (lowerKeys L hdrs)
     = (if storedValues L ''content-length'' hdrs = [] then 0
        else (case parseInt64 (last (storedValues L ''content-length'' hdrs)) of
                None \<Rightarrow> 0 | Some n \<Rightarrow> n))"
  by (simp add: contentLengthOf_def lowerKeys_last)

lemma rewrite_fetch_iff:
  "(GetResponseBody rid \<in> set (applyResponseRewrite L m E ev rw)) =
   (rid = RequestID ev \<and> rw_Body rw \<noteq> None \<and>
    shouldGetBody L (fst (extractResponseMetadata L ev)) (snd (extractResponseMetadata L ev))
      (bodySizeThreshold m))"
  by (auto simp: applyResponseRewrite_def case_prod_beta split: option.splits if_splits)

lemma rewrite_gate_refuses:
  "rw_Body rw \<noteq> None \<Longrightarrow>
   \<not> shouldGetBody L (fst (extractResponseMetadata L ev)) (snd (extractResponseMetadata L ev))
       (bodySizeThreshold m) \<Longrightarrow>
   applyResponseRewrite L m E ev rw = [ContinueResponse (RequestID ev) None []]"
  by (auto simp: applyResponseRewrite_def case_prod_beta split: option.splits)

lemma context_calls:
  "snd (buildRuleContext L m E ev stage)
     = (if stage = ''response''
           \<and> shouldGetBody L (lastContentType L (ResponseHeaders ev))
               (contentLengthOf (lowerKeys L (ResponseHeaders ev))) (bodySizeThreshold m)
        then [GetResponseBody (RequestID ev)] else [])"
  by (simp add: buildRuleContext_def Let_def)

lemma context_body:
  "ctx_Body (fst (buildRuleContext L m E ev ''response''))
     = (if shouldGetBody L (lastContentType L (ResponseHeaders ev))
             (contentLengthOf (lowerKeys L (ResponseHeaders ev))) (bodySizeThreshold m)
        then (case decodeBody L (bodyForMatch E) of None \<Rightarrow> [] | Some b \<Rightarrow> b)
        else [])"
  by (simp add: buildRuleContext_def Let_def)

lemma cond_empty_body:
  "ctx_Body ctx = [] \<Longrightarrow> cond_Type c \<in> {''text'', ''json_pointer''} \<Longrightarrow> \<not> cond L ctx c"
  by (auto simp: cond_def)

lemma matchRule_empty_body:
  "ctx_Body ctx = [] \<Longrightarrow> c \<in> set (AllOf mt) \<Longrightarrow>
   cond_Type c \<in> {''text'', ''json_pointer''} \<Longrightarrow> \<not> matchRule L ctx mt"
  using cond_empty_body [of ctx c L]
  by (auto simp: matchRule_def allOf_def list_all_iff)

lemma handle_no_rule:
  "fst (decide L m E ev (stageOf ev)) = None \<Longrightarrow> eventsRoom 1 s \<Longrightarrow>
   fst (handle L m E ev s) = Returned
   \<and> calls (snd (handle L m E ev s))
       = calls s @ snd (decide L m E ev (stageOf ev)) @ applyContinue ev (stageOf ev)"
  by (auto simp: handle_def andThen_def sendBlocking_def perform_def eventsRoom_def
      case_prod_beta split: option.splits if_splits)

text \<open>Values at the concrete inputs.\<close>

lemma lower_names:
  "ToLower lib0 ''Content-Type'' = ''content-type''"
  "ToLower lib0 ''Content-Length'' = ''content-length''"
  "ToLower lib0 ''content-type'' = ''content-type''"
  "ToLower lib0 ''content-length'' = ''content-length''"
  "ToLower lib0 ''text/html'' = ''text/html''"
  "ToLower lib0 ''Text/HTML'' = ''text/html''"
  by (simp_all add: lib0_strings asciiToLower_def lowerChar_def asciiUpper_def asciiLower_def)

lemma fold_names:
  "EqualFold lib0 ''Content-Type'' ''content-type'' = True"
  "EqualFold lib0 ''Content-Type'' ''content-length'' = False"
  "EqualFold lib0 ''Content-Length'' ''content-type'' = False"
  "EqualFold lib0 ''Content-Length'' ''content-length'' = True"
  by (simp_all add: lib0_strings asciiEqualFold_def asciiToLower_def lowerChar_def
      asciiUpper_def asciiLower_def)

lemma parse_lengths:
  "parseInt64 ''5000000'' = Some 5000000" "parseInt64 ''100'' = Some 100"
  "parseInt64 ''9223372036854775808'' = Some 9223372036854775808"
  by (simp_all add: parseInt64_def digitVal_def digits_def)

lemma sint_wrapped: "sint (9223372036854775808 :: 64 word) = - 9223372036854775808"
  by simp

lemma decimal_values:
  "list_all isDigit ''100''" "decimal ''100'' = 100"
  "list_all isDigit ''9223372036854775808''"
  "decimal ''9223372036854775808'' = 9223372036854775808"
  by (simp_all add: isDigit_def decimal_def digitVal_def digits_def)

lemma metadata_values:
  "extractResponseMetadata lib0 (evResp ''5000000'') = (''text/html'', 5000000)"
  "extractResponseMetadata lib0 (evResp ''100'') = (''text/html'', 100)"
  "extractResponseMetadata lib0 (evResp ''9223372036854775808'')
     = (''text/html'', 9223372036854775808)"
  by (simp_all add: extractResponseMetadata_def evResp_def fold_names parse_lengths)

lemma context_values:
  "lastContentType lib0 (ResponseHeaders (evResp clen)) = ''text/html''"
  "contentLengthOf (lowerKeys lib0 (ResponseHeaders (evResp ''5000000''))) = 5000000"
  "contentLengthOf (lowerKeys lib0 (ResponseHeaders (evResp ''100''))) = 100"
  "contentLengthOf (lowerKeys lib0 (ResponseHeaders (evResp ''9223372036854775808'')))
     = 9223372036854775808"
  by (simp_all add: lastContentType_def contentLengthOf_def lowerKeys_def evResp_def fold_names
      lower_names parse_lengths)

lemma gate_values:
  "shouldGetBody lib0 ''text/html'' 5000000 0 = False"
  "shouldGetBody lib0 ''text/html'' 100 0 = True"
  "shouldGetBody lib0 ''text/html'' 9223372036854775808 0 = True"
  "shouldGetBody lib0 ''Text/HTML'' 0 0 = True"
  by (simp_all add: shouldGetBody_def effectiveThreshold_def lower_names HasPrefix_def)

lemma evResp_fields:
  "RequestID (evResp clen) = ''r2''" "stageOf (evResp clen) = ''response''"
  by (simp_all add: evResp_def stageOf_def)

lemma thresholds:
  "bodySizeThreshold mgr0 = 0" "bodySizeThreshold mgrNoneOf = 0" "bodySizeThreshold mgrAllOf = 0"
  by (simp_all add: mgr0_def mgrNoneOf_def mgrAllOf_def)

lemma engines:
  "engine mgrAllOf = Some [allOfRule]" "engine mgrNoneOf = Some [noneOfRule]"
  by (simp_all add: mgrAllOf_def mgrNoneOf_def)

lemma context_refused:
  "bodySizeThreshold m = 0 \<Longrightarrow>
   buildRuleContext lib0 m env0 (evResp ''5000000'') ''response''
     = (\<lparr>ctx_URL = ''https://a.test/'', ctx_Method = ''GET'',
         ctx_Headers = lowerKeys lib0 (ResponseHeaders (evResp ''5000000'')),
         ctx_Query = Map.empty,
         ctx_Cookies = foldl (setCookieStep lib0) Map.empty (ResponseHeaders (evResp ''5000000'')),
         ctx_Body = [], ctx_ContentType = ''text/html'', ctx_Stage = ''response''\<rparr>, [])"
  by (simp add: buildRuleContext_def Let_def context_values gate_values)
     (simp add: evResp_def)

lemma decide_allOf:
  "decide lib0 mgrAllOf env0 (evResp ''5000000'') ''response'' = (None, [])"
  by (simp add: decide_def engines context_refused thresholds)
     (simp add: Eval_def allOfRule_def mkRule_def matchRule_def allOfMatch_def
        allOf_def cond_def textCond_def)

lemma decide_noneOf:
  "decide lib0 mgrNoneOf env0 (evResp ''5000000'') ''response'' = (Some (''n'', failAction), [])"
  by (simp add: decide_def engines context_refused thresholds)
     (simp add: Eval_def noneOfRule_def mkRule_def matchRule_def
        noneOf_def anyOf_def cond_def textCond_def replaces_def resultOf_def)

lemma handle_noneOf_run:
  "calls (snd (handle lib0 mgrNoneOf env0 (evResp ''5000000'') st0))
     = [FailRequest ''r2'' ''Failed'']"
  by (simp add: handle_def evResp_fields decide_noneOf)
     (simp add: andThen_def sendBlocking_def st0_def openChan_def perform_def runAction_def
        failAction_def noAction_def env0_def budgetMS_def mgrNoneOf_def mgr0_def applyFail_def
        evResp_fields)

text \<open>
  A run of \<open>handle\<close>: one rule with a pause action whose default is
  \<open>continue_original\<close>, room in both channels, and no approval before the timer.
\<close>

lemma handle_pause_run:
  "handle lib0 mgrPause env0 evReq st0
     = (Returned,
        st0\<lparr>events := Some \<lparr>buf = [mkEvent ''intercepted'' None], cap = 8, closed = False\<rparr>,
            pending := Some \<lparr>buf = [\<lparr>pi_ID = ''r1'', pi_Stage = ''request'',
                                     pi_URL = ''https://a.test/'', pi_Method = ''GET'',
                                     pi_Target = ''t1'', pi_Rule = Some ''p''\<rparr>],
                             cap = 8, closed = False\<rparr>,
            calls := [ContinueRequest ''r1'' None None [] []]\<rparr>)"
  by (simp add: handle_def andThen_def sendBlocking_def st0_def openChan_def mkEvent_def
      decide_def mgrPause_def mgr0_def buildRuleContext_def stageOf_def evReq_def Let_def
      Eval_def pauseRule_def mkRule_def matchRule_def matchAll_def replaces_def resultOf_def
      noAction_def runAction_def env0_def budgetMS_def applyPause_unfold
      perform_def unregisterApproval_def applyApprovalResult_def applyPauseDefaultAction_def
      pauseOriginal_def applyContinue_def lib0_def)

section \<open>One terminating call for each paused event\<close>

text \<open>
  C1, as the code has it. Take any paused event, any rule set, and anything the
  surroundings may decide (the random draw, the measured time, an approval or the pause
  timer, the replies to the body requests, a full or empty pool queue, a full pending
  queue). If the dispatch of the event returns, and the task was not left in the queue
  by a worker that saw its context done, then exactly one terminating call has been
  added to the trace, and it carries the event's request identifier; this covers pool
  overflow (\<open>degradeAndContinue\<close>), the expired budget, the pause timer and the full
  pending queue. The dispatch does return when the events channel is open with room
  for two more events and the pending channel is not closed. Whatever happens, the
  event is never answered twice. Nothing in \<open>handle\<close> depends on the state of the
  per-event context, which is only handed to the client calls. The worker has no
  \<open>recover\<close>: a handler that panics before its call leaves the event unanswered.
\<close>

theorem one_terminating_call:
  "(fst (dispatchPaused L m E ev s) = Returned \<and> taskRuns m E \<longrightarrow>
      (\<exists>c. isTerminating c \<and> callID c = RequestID ev
           \<and> termCalls (snd (dispatchPaused L m E ev s)) = termCalls s @ [c]))
   \<and> (eventsRoom 2 s \<and> pendingOpen s \<longrightarrow> fst (dispatchPaused L m E ev s) = Returned)
   \<and> (termCalls (snd (dispatchPaused L m E ev s)) = termCalls s
        \<or> (\<exists>c. isTerminating c \<and> callID c = RequestID ev
               \<and> termCalls (snd (dispatchPaused L m E ev s)) = termCalls s @ [c]))"
  using once_dispatch [of m E ev L] atMost_dispatch [of ev L m E]
    runs_at [OF runs_dispatch [of 0 L m E ev], of s]
  by (auto simp: once_def atMost_def answered_def numeral_2_eq_2)

theorem one_terminating_call_witness:
  "taskRuns mgrPause env0 \<and> eventsRoom 2 st0 \<and> pendingOpen st0
   \<and> fst (dispatchPaused lib0 mgrPause env0 evReq st0) = Returned
   \<and> termCalls (snd (dispatchPaused lib0 mgrPause env0 evReq st0))
        = [ContinueRequest ''r1'' None None [] []]"
proof -
  have d: "dispatchPaused lib0 mgrPause env0 evReq st0 = handle lib0 mgrPause env0 evReq st0"
    by (simp add: dispatchPaused_def mgrPause_def mgr0_def)
  have h: "taskRuns mgrPause env0 \<and> eventsRoom 2 st0 \<and> pendingOpen st0"
    by (simp add: taskRuns_def mgrPause_def mgr0_def eventsRoom_def pendingOpen_def st0_def
        openChan_def)
  have t: "termCalls (snd (handle lib0 mgrPause env0 evReq st0))
             = [ContinueRequest ''r1'' None None [] []]"
    by (simp add: handle_pause_run termCalls_def)
  from h one_terminating_call [of lib0 mgrPause env0 evReq st0]
  have "fst (dispatchPaused lib0 mgrPause env0 evReq st0) = Returned" by blast
  with h t d show ?thesis by simp
qed

text \<open>
  C1 as stated fails for a panic inside the handler. With the events channel closed,
  the first send of \<open>handle\<close> panics; the worker that called it does not recover, and no
  terminating call has been issued for the event.
\<close>

theorem panic_leaves_event_unanswered:
  "dispatchPaused lib0 mgrPool env0 evReq stClosed = (Panicked, stClosed)
   \<and> termCalls stClosed = []"
  by (simp add: dispatchPaused_def mgrPool_def mgr0_def worker_def env0_def handle_def
      andThen_def sendBlocking_def stClosed_def mkEvent_def termCalls_def)

section \<open>Rule evaluation order and modes\<close>

text \<open>
  C2, as the code has it. \<open>Eval\<close> goes through the rules in declaration order and
  returns at most one rule. Of the matching rules it keeps the first, then each later
  one of strictly greater priority, and it stops as soon as the rule it has just kept
  is in mode \<open>short_circuit\<close>. On every rule set the result is therefore
  \<open>selected\<close> of the matching rules: the first matching rule in mode \<open>short_circuit\<close>
  whose priority is above that of every matching rule before it, and when there is
  none, the first matching rule whose priority no other matching rule exceeds. In
  particular: when the first matching rule is in mode \<open>short_circuit\<close>, it is
  the result, whatever the other rules are; when every rule is in mode
  \<open>short_circuit\<close> the result is the first matching rule; when no rule is in mode
  \<open>short_circuit\<close> (all are \<open>aggregate\<close>) the result is still a single rule, the
  first among the matching rules of greatest priority.
\<close>

theorem Eval_modes:
  "Eval L rs ctx = map_option resultOf (selected (matching L ctx rs))
   \<and> (firstMatch L ctx rs = Some r \<and> isShortCircuit r \<longrightarrow> Eval L rs ctx = Some (resultOf r))
   \<and> (list_all isShortCircuit rs \<longrightarrow>
      Eval L rs ctx = map_option resultOf (firstMatch L ctx rs))
   \<and> (list_ex isShortCircuit rs = False \<longrightarrow>
      Eval L rs ctx = map_option resultOf (firstTop (matching L ctx rs)))
   \<and> length (resultIDs (Eval L rs ctx)) \<le> 1"
proof -
  have a: "Eval L rs ctx = map_option resultOf (selected (matching L ctx rs))"
    by (rule Eval_selected)
  have b: "firstMatch L ctx rs = Some r \<and> isShortCircuit r \<longrightarrow>
             Eval L rs ctx = Some (resultOf r)"
    by (simp add: Eval_selected selected_first_short)
  have c: "(list_all isShortCircuit rs \<longrightarrow>
      Eval L rs ctx = map_option resultOf (firstMatch L ctx rs))
   \<and> (list_ex isShortCircuit rs = False \<longrightarrow>
      Eval L rs ctx = map_option resultOf (firstTop (matching L ctx rs)))
   \<and> length (resultIDs (Eval L rs ctx)) \<le> 1"
    by (cases rs)
     (auto simp: Eval_def evalLoop_short evalLoop_no_short firstMatch_def matching_def
        firstTop_def resultIDs_def resultOf_def simp del: evalLoop.simps split: option.splits)
  from a b c show ?thesis by blast
qed

theorem Eval_modes_witness:
  "firstMatch lib0 ctxA shortRules = Some (mkRule ''b'' 1 ''short_circuit'' matchAll noAction)
   \<and> isShortCircuit (mkRule ''b'' 1 ''short_circuit'' matchAll noAction)
   \<and> list_all isShortCircuit shortRules
   \<and> resultIDs (Eval lib0 shortRules ctxA) = [''b'']
   \<and> list_ex isShortCircuit aggregateRules = False
   \<and> resultIDs (Eval lib0 aggregateRules ctxA) = [''b'']
   \<and> map rule_ID (matching lib0 ctxA mixedRules) = [''a'', ''b'', ''c'']
   \<and> resultIDs (Eval lib0 mixedRules ctxA) = [''b'']
   \<and> map rule_ID (matching lib0 ctxA lowShortRules) = [''a'', ''b'', ''c'']
   \<and> resultIDs (Eval lib0 lowShortRules ctxA) = [''c'']"
  using Eval_modes [of lib0 shortRules ctxA "mkRule ''b'' 1 ''short_circuit'' matchAll noAction"]
    Eval_modes [of lib0 aggregateRules ctxA] Eval_modes [of lib0 mixedRules ctxA]
    Eval_modes [of lib0 lowShortRules ctxA]
  by (simp add: shortRules_def aggregateRules_def mixedRules_def lowShortRules_def
      mkRule_def isShortCircuit_def firstMatch_def matching_def matches_def matchRule_def matchAll_def allOfMatch_def allOf_def cond_def urlCond_def ctxA_def HasPrefix_def firstTop_def topPriority_def resultIDs_def resultOf_def selected_def)

text \<open>
  C2 as stated fails for \<open>aggregate\<close>: two rules in mode \<open>aggregate\<close> both match, and
  \<open>Eval\<close> returns the first one alone. It fails for \<open>short_circuit\<close> too when the modes
  are mixed. With the matching rules \<open>a\<close> (\<open>aggregate\<close>, priority 1), \<open>b\<close>
  (\<open>short_circuit\<close>, priority 5) and \<open>c\<close> (\<open>aggregate\<close>, priority 9), the loop
  stops at \<open>b\<close>, which is not the first matching rule. With \<open>b\<close> at priority 0
  instead, \<open>b\<close> is never kept, the loop does not stop, and the result is \<open>c\<close>.
\<close>

theorem Eval_aggregate_counterexample:
  "list_all isAggregate twoAggregateRules
   \<and> map rule_ID (matching lib0 ctxA twoAggregateRules) = [''a'', ''b'']
   \<and> resultIDs (Eval lib0 twoAggregateRules ctxA) = [''a'']
   \<and> map rule_ID (matching lib0 ctxA mixedRules) = [''a'', ''b'', ''c'']
   \<and> map isShortCircuit (matching lib0 ctxA mixedRules) = [False, True, False]
   \<and> resultIDs (Eval lib0 mixedRules ctxA) = [''b'']
   \<and> map rule_ID (matching lib0 ctxA lowShortRules) = [''a'', ''b'', ''c'']
   \<and> map isShortCircuit (matching lib0 ctxA lowShortRules) = [False, True, False]
   \<and> resultIDs (Eval lib0 lowShortRules ctxA) = [''c'']"
  by (simp add: twoAggregateRules_def mixedRules_def lowShortRules_def mkRule_def isAggregate_def
      isShortCircuit_def matching_def matches_def
      matchRule_def matchAll_def Eval_def replaces_def resultIDs_def resultOf_def)

section \<open>Header conditions and the case of their key\<close>

text \<open>
  C3, at an input where the code departs from it. The request carries the header
  \<open>Content-Type: application/json\<close>. \<open>buildRuleContext\<close> stores it under the key
  \<open>content-type\<close>; \<open>cond\<close> looks the condition's key up as it is written, and the
  engine has no step that lowers it. The condition written with the header's own
  capitals is false, the one written in lower case is true.
\<close>

theorem header_key_capitals:
  "cond lib0 (fst (buildRuleContext lib0 mgr0 env0 evReq ''request''))
      (headerCond ''Content-Type'' ''equals'' ''application/json'') = False
   \<and> cond lib0 (fst (buildRuleContext lib0 mgr0 env0 evReq ''request''))
      (headerCond ''content-type'' ''equals'' ''application/json'') = True"
  by (simp add: cond_def headerCond_def buildRuleContext_def evReq_def lowerKeys_def
      asciiToLower_def lowerChar_def asciiUpper_def asciiLower_def opSwitch_def lib0_def)

section \<open>JSON Patch on arrays\<close>

text \<open>
  C4, at an input where the code departs from it. The document is the array
  \<open>[1,2]\<close>. RFC 6902 has \<open>add\<close> at \<open>/0\<close> insert the value before the first element,
  giving \<open>[9,1,2]\<close>, and \<open>add\<close> at \<open>/2\<close> or at \<open>/-\<close> append it. \<open>setRec\<close> overwrites
  the element at an index inside the array and leaves the array alone otherwise.
\<close>

theorem add_overwrites_array_element:
  "patchLoop (JArr [JNum 1, JNum 2]) [addOp ''/0''] = Patched (JArr [JNum 9, JNum 2])
   \<and> applyJSONPatch libJSON env0 ''[1,2]'' [addOp ''/0''] = Some ''[9,2]''
   \<and> patchLoop (JArr [JNum 1, JNum 2]) [addOp ''/2''] = Patched (JArr [JNum 1, JNum 2])
   \<and> patchLoop (JArr [JNum 1, JNum 2]) [addOp ''/-''] = Patched (JArr [JNum 1, JNum 2])"
  by (simp add: addOp_def setByPtr_def splitPtr_def unescapeTok_def toIndex_def digitVal_def
      digits_def inRange_def applyJSONPatch_def libJSON_def lib0_def)

section \<open>The pause timer and the default action\<close>

text \<open>
  C5, as the code has it. When a pause is queued (the pending channel is \<open>nil\<close> or has
  room) and no approval arrives before the timer, \<open>applyPause\<close> returns after issuing
  exactly the calls of the configured default action, and it leaves the events channel
  as it was: no event is emitted, of type \<open>timeout\<close> or other. The default action
  \<open>fail\<close> issues \<open>failRequest\<close>. The default action \<open>fulfill\<close> answers with the
  configured status: in the request stage by \<open>fulfillRequest\<close> with no header and an
  empty body, in the response stage by \<open>continueResponse\<close> carrying the status (when
  it is not zero). \<open>continue_original\<close> and \<open>continue_mutated\<close> continue the request
  or the response unchanged. A default action whose type is none of the four does what
  \<open>continue_original\<close> does, which is \<open>applyContinue\<close>.
\<close>

theorem pause_timeout_default:
  "(approvalIn E = None \<and> pendingRoom s \<longrightarrow>
      fst (applyPause L m E ev p stage rid s) = Returned
      \<and> calls (snd (applyPause L m E ev p stage rid s))
          = calls s @ applyPauseDefaultAction ev p stage
      \<and> events (snd (applyPause L m E ev p stage rid s)) = events s)
   \<and> (da_Type (DefaultAction p) = ''fail'' \<longrightarrow>
        applyPauseDefaultAction ev p stage = [FailRequest (RequestID ev) ''Failed''])
   \<and> (da_Type (DefaultAction p) = ''fulfill'' \<longrightarrow>
        applyPauseDefaultAction ev p stage
          = (if stage = ''response''
             then [ContinueResponse (RequestID ev)
                     (if da_Status (DefaultAction p) = 0 then None
                      else Some (da_Status (DefaultAction p))) []]
             else [FulfillRequest (RequestID ev) (da_Status (DefaultAction p)) [] []]))
   \<and> (da_Type (DefaultAction p) \<in> {''continue_original'', ''continue_mutated''} \<longrightarrow>
        applyPauseDefaultAction ev p stage
          = (if stage = ''response'' then [ContinueResponse (RequestID ev) None []]
             else [ContinueRequest (RequestID ev) None None [] []]))
   \<and> (da_Type (DefaultAction p)
        \<notin> {''continue_original'', ''continue_mutated'', ''fulfill'', ''fail''} \<longrightarrow>
        applyPauseDefaultAction ev p stage
          = applyPauseDefaultAction ev (withDefault p ''continue_original'') stage)
   \<and> applyPauseDefaultAction ev (withDefault p ''continue_original'') stage
       = applyContinue ev stage"
  by (auto simp: applyPause_unfold pendingRoom_def andThen_def perform_def unregisterApproval_def
      applyApprovalResult_def applyPauseDefaultAction_def withDefault_def applyFail_def
      applyRespond_def continueResponseWithModifications_def fulfillRequest_def
      toHeaderEntries_def applyContinue_def split: option.splits)

theorem pause_timeout_default_witness:
  "approvalIn env0 = None \<and> pendingRoom st0
   \<and> da_Type (DefaultAction (withDefault pauseOriginal ''later''))
        \<notin> {''continue_original'', ''continue_mutated'', ''fulfill'', ''fail''}
   \<and> fst (applyPause lib0 mgr0 env0 evReq (withDefault pauseOriginal ''later'') ''request''
             None st0) = Returned
   \<and> calls (snd (applyPause lib0 mgr0 env0 evReq (withDefault pauseOriginal ''later'')
                    ''request'' None st0))
        = [ContinueRequest ''r1'' None None [] []]
   \<and> events (snd (applyPause lib0 mgr0 env0 evReq (withDefault pauseOriginal ''later'')
                     ''request'' None st0)) = events st0
   \<and> da_Type (DefaultAction pauseOriginal) \<in> {''continue_original'', ''continue_mutated''}
   \<and> calls (snd (applyPause lib0 mgr0 env0 evReq pauseOriginal ''request'' None st0))
        = [ContinueRequest ''r1'' None None [] []]
   \<and> da_Type (DefaultAction pauseFail) = ''fail''
   \<and> calls (snd (applyPause lib0 mgr0 env0 evReq pauseFail ''request'' None st0))
        = [FailRequest ''r1'' ''Failed'']
   \<and> da_Type (DefaultAction pauseFulfill) = ''fulfill''
   \<and> calls (snd (applyPause lib0 mgr0 env0 evReq pauseFulfill ''request'' None st0))
        = [FulfillRequest ''r1'' 204 [] []]
   \<and> calls (snd (applyPause lib0 mgr0 env0 (evResp ''100'') pauseFulfill ''response'' None st0))
        = [ContinueResponse ''r2'' (Some 204) []]"
proof -
  have pre: "approvalIn env0 = None" "pendingRoom st0" "calls st0 = []"
    by (simp_all add: env0_def st0_def pendingRoom_def openChan_def)
  have ty: "da_Type (DefaultAction (withDefault pauseOriginal ''later'')) = ''later''"
    "da_Type (DefaultAction pauseOriginal) = ''continue_original''"
    "da_Type (DefaultAction pauseFail) = ''fail''"
    "da_Type (DefaultAction pauseFulfill) = ''fulfill''"
    "da_Status (DefaultAction pauseFulfill) = 204"
    by (simp_all add: withDefault_def pauseOriginal_def pauseFail_def pauseFulfill_def)
  have orig: "withDefault (withDefault pauseOriginal ''later'') ''continue_original''
      = pauseOriginal"
    by (simp add: withDefault_def pauseOriginal_def)
  have ids: "RequestID evReq = ''r1''" by (simp add: evReq_def)
  show ?thesis
    using
      pause_timeout_default [of env0 st0 lib0 mgr0 evReq
        "withDefault pauseOriginal ''later''" "''request''" None]
      pause_timeout_default [of env0 st0 lib0 mgr0 evReq pauseOriginal "''request''" None]
      pause_timeout_default [of env0 st0 lib0 mgr0 evReq pauseFail "''request''" None]
      pause_timeout_default [of env0 st0 lib0 mgr0 evReq pauseFulfill "''request''" None]
      pause_timeout_default [of env0 st0 lib0 mgr0 "evResp ''100''" pauseFulfill
        "''response''" None]
    by (simp add: pre ty orig ids evResp_fields)
qed

text \<open>
  C5 as stated fails for the \<open>timeout\<close> event: after a whole run of \<open>handle\<close> that
  ends by the pause timer, the events channel holds \<open>intercepted\<close> and nothing else.
\<close>

theorem pause_timeout_emits_no_event:
  "fst (handle lib0 mgrPause env0 evReq st0) = Returned
   \<and> approvalIn env0 = None
   \<and> calls (snd (handle lib0 mgrPause env0 evReq st0)) = [ContinueRequest ''r1'' None None [] []]
   \<and> map ev_Type (eventsOf (snd (handle lib0 mgrPause env0 evReq st0))) = [''intercepted'']"
proof -
  have "approvalIn env0 = None" by (simp add: env0_def)
  then show ?thesis by (simp add: handle_pause_run eventsOf_def mkEvent_def)
qed

section \<open>Request headers of a rewrite\<close>

text \<open>
  C6, at an input where the code departs from it. The request has the headers
  \<open>Host\<close>, \<open>Accept\<close> and \<open>Content-Type\<close>; the rewrite sets \<open>X-A\<close> to \<open>1\<close> and
  removes \<open>Host\<close>. The claim has \<open>continueRequest\<close> receive \<open>Accept\<close>,
  \<open>Content-Type\<close> and \<open>X-A\<close>. \<open>buildRequestHeaders\<close> passes \<open>X-A\<close> alone: the
  headers the rewrite does not name are not kept. (The response side does start from
  the current headers, in \<open>applyResponseRewrite\<close>.)
\<close>

theorem request_headers_not_kept:
  "applyRequestRewrite lib0 env0 evReq rwHeaders
     = [ContinueRequest ''r1'' None None [(''X-A'', ''1'')] []]
   \<and> req_Headers evReq
       = [(''Host'', ''a.test''), (''Accept'', ''*/*''), (''Content-Type'', ''application/json'')]"
  by (simp add: applyRequestRewrite_def rwHeaders_def buildRequestHeaders_def
      buildRequestBody_def evReq_def List.map_filter_def)

section \<open>Sending events from the handler\<close>

text \<open>
  C7, at an input where the code departs from it. The events channel is full.
  \<open>handle\<close> sends \<open>intercepted\<close> with a plain send, so it stays parked in that send,
  before any call to the client; \<open>sendEvent\<close>, with its \<open>select\<close> and \<open>default\<close>,
  drops the same event in the same state and returns.
\<close>

theorem handle_waits_on_full_events:
  "handle lib0 mgr0 env0 evReq stFull = (Blocked, stFull)
   \<and> calls stFull = []
   \<and> sendEvent (mkEvent ''intercepted'' None) stFull = (Returned, stFull)"
  by (simp add: handle_def andThen_def sendBlocking_def sendEvent_def stFull_def mkEvent_def)

section \<open>The gate on fetching a response body\<close>

text \<open>
  C8, as the code has it. \<open>shouldGetBody\<close> holds exactly when the content type, put
  in lower case, begins with \<open>text/\<close> or \<open>application/json\<close>, and the content length,
  if positive, is at most the threshold, which is 4 MiB when the configured one is zero
  or negative. The content length is what \<open>parseInt64\<close> reads: nothing for a string
  that is not all digits, and for a string of digits the number it denotes, cut to 64
  bits; for a number below \<open>2^63\<close> that is the number itself.

  A rewrite of the response takes the last \<open>Content-Type\<close> header and the last
  \<open>Content-Length\<close> header that \<open>parseInt64\<close> reads (0 when there is none). It
  issues \<open>GetResponseBody\<close> exactly when a body patch is asked for and the gate holds
  for these two; when a body patch is asked for and the gate refuses, it issues the plain
  \<open>ContinueResponse\<close> and nothing else.

  Building the rule context takes the last \<open>Content-Type\<close> header and the last
  \<open>Content-Length\<close> header (0 when there is none or \<open>parseInt64\<close> does not read
  it). It issues \<open>GetResponseBody\<close> exactly in the response stage when the gate holds
  for these two. When the gate refuses, the body the rules see is empty: every condition
  of type \<open>text\<close> or \<open>json_pointer\<close> is false, and a rule with such a condition under
  \<open>allOf\<close> does not match. The event is then handled by the rules that still match;
  when none does, the response is continued by the plain \<open>ContinueResponse\<close>.
\<close>

theorem body_gate:
  "shouldGetBody L ctype clen thr =
     ((HasPrefix (ToLower L ctype) ''text/'' \<or> HasPrefix (ToLower L ctype) ''application/json'')
      \<and> (0 < sint clen \<longrightarrow> sint clen \<le> sint (effectiveThreshold thr)))
   \<and> sint (effectiveThreshold thr) = (if sint thr \<le> 0 then 4194304 else sint thr)
   \<and> parseInt64 v = (if list_all isDigit v then Some (of_nat (decimal v)) else None)
   \<and> (decimal v < 2 ^ 63 \<longrightarrow> sint (of_nat (decimal v) :: 64 word) = int (decimal v))
   \<and> extractResponseMetadata L ev
       = (lastOr [] (headerValues L ''content-type'' (ResponseHeaders ev)),
          lastOr 0 (List.map_filter parseInt64
                      (headerValues L ''content-length'' (ResponseHeaders ev))))
   \<and> lastContentType L (ResponseHeaders ev)
       = lastOr [] (headerValues L ''content-type'' (ResponseHeaders ev))
   \<and> contentLengthOf (lowerKeys L (ResponseHeaders ev))
       = (if storedValues L ''content-length'' (ResponseHeaders ev) = [] then 0
          else (case parseInt64 (last (storedValues L ''content-length'' (ResponseHeaders ev))) of
                  None \<Rightarrow> 0 | Some n \<Rightarrow> n))
   \<and> (GetResponseBody rid \<in> set (applyResponseRewrite L m E ev rw)) =
       (rid = RequestID ev \<and> rw_Body rw \<noteq> None
        \<and> shouldGetBody L (fst (extractResponseMetadata L ev))
            (snd (extractResponseMetadata L ev)) (bodySizeThreshold m))
   \<and> (rw_Body rw \<noteq> None
        \<and> \<not> shouldGetBody L (fst (extractResponseMetadata L ev))
              (snd (extractResponseMetadata L ev)) (bodySizeThreshold m) \<longrightarrow>
        applyResponseRewrite L m E ev rw = [ContinueResponse (RequestID ev) None []])
   \<and> snd (buildRuleContext L m E ev stage)
       = (if stage = ''response''
             \<and> shouldGetBody L (lastContentType L (ResponseHeaders ev))
                 (contentLengthOf (lowerKeys L (ResponseHeaders ev))) (bodySizeThreshold m)
          then [GetResponseBody (RequestID ev)] else [])
   \<and> ctx_Body (fst (buildRuleContext L m E ev ''response''))
       = (if shouldGetBody L (lastContentType L (ResponseHeaders ev))
               (contentLengthOf (lowerKeys L (ResponseHeaders ev))) (bodySizeThreshold m)
          then (case decodeBody L (bodyForMatch E) of None \<Rightarrow> [] | Some b \<Rightarrow> b)
          else [])
   \<and> (ctx_Body ctx = [] \<and> cond_Type c \<in> {''text'', ''json_pointer''} \<longrightarrow> \<not> cond L ctx c)
   \<and> (ctx_Body ctx = [] \<and> c \<in> set (AllOf mt) \<and> cond_Type c \<in> {''text'', ''json_pointer''} \<longrightarrow>
        \<not> matchRule L ctx mt)
   \<and> (stageOf ev = ''response'' \<and> fst (decide L m E ev ''response'') = None
        \<and> eventsRoom 1 s \<longrightarrow>
        fst (handle L m E ev s) = Returned
        \<and> calls (snd (handle L m E ev s))
            = calls s @ snd (decide L m E ev ''response'')
                @ [ContinueResponse (RequestID ev) None []])"
proof -
  have no_rule: "stageOf ev = ''response'' \<and> fst (decide L m E ev ''response'') = None
        \<and> eventsRoom 1 s \<longrightarrow>
        fst (handle L m E ev s) = Returned
        \<and> calls (snd (handle L m E ev s))
            = calls s @ snd (decide L m E ev ''response'')
                @ [ContinueResponse (RequestID ev) None []]"
    using handle_no_rule [of L m E ev s] by (auto simp: applyContinue_def)
  show ?thesis
    using shouldGetBody_iff [of L ctype clen thr] effectiveThreshold_sint [of thr]
      parseInt64_decimal [of v] sint_small [of "decimal v"]
      extractResponseMetadata_last [of L ev] lastContentType_last [of L "ResponseHeaders ev"]
      contentLength_stored [of L "ResponseHeaders ev"]
      rewrite_fetch_iff [of rid L m E ev rw] rewrite_gate_refuses [of rw L ev m E]
      context_calls [of L m E ev stage] context_body [of L m E ev]
      cond_empty_body [of ctx c L] matchRule_empty_body [of ctx c mt L] no_rule
    by blast
qed

theorem body_gate_witness:
  "\<not> shouldGetBody lib0 ''text/html'' 5000000 0
   \<and> sint (effectiveThreshold 0) = 4194304
   \<and> list_all isDigit ''5000000'' \<and> decimal ''5000000'' = 5000000
   \<and> decimal ''5000000'' < 2 ^ 63
   \<and> parseInt64 ''5000000'' = Some 5000000
   \<and> sint (5000000 :: 64 word) = 5000000
   \<and> extractResponseMetadata lib0 (evResp ''5000000'') = (''text/html'', 5000000)
   \<and> lastContentType lib0 (ResponseHeaders (evResp ''5000000'')) = ''text/html''
   \<and> contentLengthOf (lowerKeys lib0 (ResponseHeaders (evResp ''5000000''))) = 5000000
   \<and> rw_Body rwBody \<noteq> None
   \<and> GetResponseBody ''r2''
        \<notin> set (applyResponseRewrite lib0 mgrAllOf env0 (evResp ''5000000'') rwBody)
   \<and> applyResponseRewrite lib0 mgrAllOf env0 (evResp ''5000000'') rwBody
        = [ContinueResponse ''r2'' None []]
   \<and> snd (buildRuleContext lib0 mgrAllOf env0 (evResp ''5000000'') ''response'') = []
   \<and> ctx_Body (fst (buildRuleContext lib0 mgrAllOf env0 (evResp ''5000000'') ''response'')) = []
   \<and> ctx_Body ctxA = [] \<and> textCond ''contains'' ''secret'' \<in> set (AllOf (rule_Match allOfRule))
   \<and> cond_Type (textCond ''contains'' ''secret'') \<in> {''text'', ''json_pointer''}
   \<and> \<not> cond lib0 ctxA (textCond ''contains'' ''secret'')
   \<and> \<not> matchRule lib0 ctxA (rule_Match allOfRule)
   \<and> stageOf (evResp ''5000000'') = ''response''
   \<and> fst (decide lib0 mgrAllOf env0 (evResp ''5000000'') ''response'') = None
   \<and> eventsRoom 1 st0
   \<and> fst (handle lib0 mgrAllOf env0 (evResp ''5000000'') st0) = Returned
   \<and> calls (snd (handle lib0 mgrAllOf env0 (evResp ''5000000'') st0))
        = [ContinueResponse ''r2'' None []]"
proof -
  have dg: "list_all isDigit ''5000000''" "decimal ''5000000'' = 5000000"
    by (simp_all add: isDigit_def decimal_def digitVal_def digits_def)
  have b: "rw_Body rwBody \<noteq> None" by (simp add: rwBody_def)
  have c: "ctx_Body ctxA = []"
    "textCond ''contains'' ''secret'' \<in> set (AllOf (rule_Match allOfRule))"
    "cond_Type (textCond ''contains'' ''secret'') = ''text''"
    by (simp_all add: ctxA_def allOfRule_def mkRule_def allOfMatch_def textCond_def)
  have hv: "headerValues lib0 ''content-type'' (ResponseHeaders (evResp ''5000000''))
      = [''text/html'']"
    "headerValues lib0 ''content-length'' (ResponseHeaders (evResp ''5000000''))
      = [''5000000'']"
    "storedValues lib0 ''content-length'' (ResponseHeaders (evResp ''5000000''))
      = [''5000000'']"
    by (simp_all add: headerValues_def storedValues_def evResp_def fold_names lower_names)
  have room: "eventsRoom 1 st0" "calls st0 = []"
    by (simp_all add: eventsRoom_def st0_def openChan_def)
  show ?thesis
    using body_gate [where L = lib0 and ctype = "''text/html''" and clen = 5000000 and thr = 0
        and v = "''5000000''" and ev = "evResp ''5000000''" and rid = "''r2''"
        and m = mgrAllOf and E = env0 and rw = rwBody and stage = "''response''"
        and ctx = ctxA and c = "textCond ''contains'' ''secret''"
        and mt = "rule_Match allOfRule" and s = st0]
      dg b c room
    by (simp add: metadata_values context_values gate_values thresholds evResp_fields
        decide_allOf parse_lengths hv lastOr_def List.map_filter_simps)
qed

text \<open>
  C8 as stated fails in three ways. The response has the content type \<open>text/html\<close>
  and the content length 5000000, above the threshold of 4 MiB: the gate refuses and
  no body is fetched, yet a rule that names a \<open>text\<close> condition under \<open>noneOf\<close>
  matches the empty body, and its action fails the request: the handling that depends
  on the body does not fall back to \<open>continueResponse\<close>. The content length
  9223372036854775808 wraps around to a negative \<open>int64\<close>, and the body is fetched on
  both paths though the length exceeds the threshold. The content type \<open>Text/HTML\<close>
  does not begin with \<open>text/\<close>, and it passes the gate.
\<close>

theorem body_gate_counterexample:
  "\<not> shouldGetBody lib0 ''text/html'' 5000000 (bodySizeThreshold mgrNoneOf)
   \<and> extractResponseMetadata lib0 (evResp ''5000000'') = (''text/html'', 5000000)
   \<and> snd (buildRuleContext lib0 mgrNoneOf env0 (evResp ''5000000'') ''response'') = []
   \<and> calls (snd (handle lib0 mgrNoneOf env0 (evResp ''5000000'') st0))
        = [FailRequest ''r2'' ''Failed'']
   \<and> decimal ''9223372036854775808'' = 9223372036854775808
   \<and> bodySizeThreshold mgr0 = 0
   \<and> map_option sint (parseInt64 ''9223372036854775808'') = Some (- 9223372036854775808)
   \<and> GetResponseBody ''r2''
        \<in> set (applyResponseRewrite lib0 mgr0 env0 (evResp ''9223372036854775808'') rwBody)
   \<and> snd (buildRuleContext lib0 mgr0 env0 (evResp ''9223372036854775808'') ''response'')
        = [GetResponseBody ''r2'']
   \<and> \<not> HasPrefix ''Text/HTML'' ''text/'' \<and> \<not> HasPrefix ''Text/HTML'' ''application/json''
   \<and> shouldGetBody lib0 ''Text/HTML'' 0 0"
proof -
  have a: "snd (buildRuleContext lib0 mgrNoneOf env0 (evResp ''5000000'') ''response'') = []"
    by (simp add: context_refused thresholds)
  have b: "GetResponseBody ''r2''
        \<in> set (applyResponseRewrite lib0 mgr0 env0 (evResp ''9223372036854775808'') rwBody)"
    by (simp add: applyResponseRewrite_def rwBody_def metadata_values gate_values thresholds
        evResp_fields)
  have c: "snd (buildRuleContext lib0 mgr0 env0 (evResp ''9223372036854775808'') ''response'')
        = [GetResponseBody ''r2'']"
    by (simp add: context_calls context_values gate_values thresholds evResp_fields)
  have d: "\<not> HasPrefix ''Text/HTML'' ''text/''" "\<not> HasPrefix ''Text/HTML'' ''application/json''"
    by (simp_all add: HasPrefix_def)
  from a b c d show ?thesis
    by (simp add: gate_values thresholds metadata_values handle_noneOf_run decimal_values
        parse_lengths)
qed

section \<open>URL glob patterns\<close>

text \<open>
  C9. \<open>glob\<close> knows three shapes. The pattern \<open>*\<close> matches every URL. A pattern that
  starts with \<open>*\<close> (and does not end with one) matches exactly the URLs that end with
  the rest of the pattern. A pattern that ends with \<open>*\<close> (and does not start with one)
  matches exactly the URLs that start with the pattern without its last byte. Every
  other pattern, a \<open>*\<close> in its middle or not, matches only the URL equal to it. A
  pattern with a \<open>*\<close> at both ends is matched by either of the two rules. A \<open>url\<close>
  condition whose mode is none of \<open>prefix\<close>, \<open>regex\<close>, \<open>exact\<close> is decided by \<open>glob\<close>.
\<close>

theorem glob_shapes:
  "glob s ''*''
   \<and> (HasPrefix p ''*'' \<and> \<not> HasSuffix p ''*'' \<longrightarrow> glob s p = HasSuffix s (tl p))
   \<and> (HasSuffix p ''*'' \<and> \<not> HasPrefix p ''*'' \<longrightarrow> glob s p = HasPrefix s (butlast p))
   \<and> (\<not> HasPrefix p ''*'' \<and> \<not> HasSuffix p ''*'' \<longrightarrow> glob s p = (s = p))
   \<and> (HasPrefix p ''*'' \<and> HasSuffix p ''*'' \<and> p \<noteq> ''*'' \<longrightarrow>
        glob s p = (HasSuffix s (tl p) \<or> HasPrefix s (butlast p)))
   \<and> (cond_Type c = ''url'' \<and> cond_Mode c \<notin> {''prefix'', ''regex'', ''exact''} \<longrightarrow>
        cond L ctx c = glob (ctx_URL ctx) (cond_Pattern c))"
proof -
  have "glob s ''*''" by (simp add: glob_def)
  moreover have "\<not> HasPrefix p ''*'' \<and> \<not> HasSuffix p ''*'' \<longrightarrow> glob s p = (s = p)"
    by (auto simp: glob_unfold HasPrefix_def)
  moreover have "cond_Type c = ''url'' \<and> cond_Mode c \<notin> {''prefix'', ''regex'', ''exact''} \<longrightarrow>
        cond L ctx c = glob (ctx_URL ctx) (cond_Pattern c)"
    by (simp add: cond_def)
  ultimately show ?thesis
    using glob_leading_only [of p s] glob_trailing_only [of p s] glob_both_ends [of p s]
    by blast
qed

theorem glob_shapes_witness:
  "HasPrefix ''*.js'' ''*'' \<and> \<not> HasSuffix ''*.js'' ''*''
   \<and> glob ''https://a.test/x.js'' ''*.js''
   \<and> HasSuffix ''https://*'' ''*'' \<and> \<not> HasPrefix ''https://*'' ''*''
   \<and> glob ''https://a.test/x.js'' ''https://*''
   \<and> \<not> HasPrefix ''a*b'' ''*'' \<and> \<not> HasSuffix ''a*b'' ''*''
   \<and> glob ''a-b'' ''a*b'' = False \<and> glob ''a*b'' ''a*b''
   \<and> HasPrefix ''*.js*'' ''*'' \<and> HasSuffix ''*.js*'' ''*''
   \<and> glob ''x.js*'' ''*.js*''
   \<and> cond lib0 ctxA (urlCond ''glob'' ''*.js'')"
  using glob_shapes [of "''https://a.test/x.js''" "''*.js''" "urlCond ''glob'' ''*.js''" lib0 ctxA]
    glob_shapes [of "''https://a.test/x.js''" "''https://*''"]
    glob_shapes [of "''a-b''" "''a*b''"] glob_shapes [of "''a*b''" "''a*b''"]
    glob_shapes [of "''x.js*''" "''*.js*''"]
  by (simp add: HasPrefix_def HasSuffix_def suffix_to_prefix urlCond_def ctxA_def)

section \<open>The default actions that continue\<close>

text \<open>
  C10. For every paused event and stage, the pause default action \<open>continue_mutated\<close>
  issues the same calls as \<open>continue_original\<close>, namely those of \<open>applyContinue\<close>: one
  \<open>ContinueResponse\<close> or \<open>ContinueRequest\<close> with the request identifier and no other
  argument. The whole of \<open>applyPause\<close> does the same with either of the two.
\<close>

theorem continue_mutated_is_continue_original:
  "applyPauseDefaultAction ev (withDefault p ''continue_mutated'') stage
     = applyPauseDefaultAction ev (withDefault p ''continue_original'') stage
   \<and> applyPauseDefaultAction ev (withDefault p ''continue_mutated'') stage
       = applyContinue ev stage
   \<and> applyContinue ev stage
       = (if stage = ''response'' then [ContinueResponse (RequestID ev) None []]
          else [ContinueRequest (RequestID ev) None None [] []])
   \<and> applyPause L m E ev (withDefault p ''continue_mutated'') stage rid s
       = applyPause L m E ev (withDefault p ''continue_original'') stage rid s"
proof -
  have "applyPauseDefaultAction ev (withDefault p ''continue_mutated'') stage
          = applyContinue ev stage"
    by (simp add: applyPauseDefaultAction_def withDefault_def)
  moreover have "applyPause L m E ev (withDefault p ''continue_mutated'') stage rid s
       = applyPause L m E ev (withDefault p ''continue_original'') stage rid s"
    by (simp add: applyPause_unfold approval_mutated_original overflow_mutated_original
        cong: option.case_cong if_cong)
  ultimately show ?thesis
    by (simp add: default_mutated_original applyContinue_def)
qed

end
